theory Spec2Isabelle
  imports Complex_Main "HOL-Library.Sublist"
begin

section \<open>Python values\<close>

text \<open>
  \<^verbatim>\<open>runall.py\<close> is dynamically typed: the decoded reply of the relayer, the fields of
  the command objects and the fields of the result objects are arbitrary Python values
  (the type annotations are not checked at run time). The model therefore has one
  universe of values.

  \<^item> \<open>PDict\<close> is a \<^verbatim>\<open>dict\<close> with \<^verbatim>\<open>str\<close> keys (the only kind \<^verbatim>\<open>json.loads\<close> and
    the source build), as the list of its items with distinct keys; a key is looked up with
    \<open>map_of\<close>.
  \<^item> \<open>PInst n fs\<close> is an instance of the dataclass named \<open>n\<close> with the fields \<open>fs\<close>
    in declaration order.
  \<^item> \<open>PFloat\<close> is a finite \<^verbatim>\<open>float\<close>, as the rational number it denotes. \<^verbatim>\<open>nan\<close> and
    the infinities, which \<^verbatim>\<open>json.loads\<close> accepts as an extension of JSON, are outside
    the model.
  \<^item> A \<^verbatim>\<open>str\<close> is a \<open>string\<close>; a character stands for the code point of the same number,
    so only code points below 256 are modelled.
\<close>

datatype pyval =
    PNone
  | PBool bool
  | PInt int
  | PFloat rat
  | PStr string
  | PList "pyval list"
  | PDict "(string \<times> pyval) list"
  | PInst string "(string \<times> pyval) list"

text \<open>Truth value testing, as used by \<^verbatim>\<open>or\<close> and \<^verbatim>\<open>if\<close>.\<close>

fun truthy :: "pyval \<Rightarrow> bool" where
  "truthy PNone = False"
| "truthy (PBool b) = b"
| "truthy (PInt i) = (i \<noteq> 0)"
| "truthy (PFloat r) = (r \<noteq> 0)"
| "truthy (PStr s) = (s \<noteq> [])"
| "truthy (PList xs) = (xs \<noteq> [])"
| "truthy (PDict kvs) = (kvs \<noteq> [])"
| "truthy (PInst n fs) = True"

text \<open>\<^verbatim>\<open>a or b\<close>\<close>

definition py_or :: "pyval \<Rightarrow> pyval \<Rightarrow> pyval" where
  "py_or a b = (if truthy a then a else b)"

text \<open>
  \<^verbatim>\<open>a == b\<close>. Numbers (\<^verbatim>\<open>bool\<close> is a subclass of \<^verbatim>\<open>int\<close>) compare by value, lists
  element by element, dicts by size and key-wise, dataclass instances by class and then
  field by field.
\<close>

fun num_of :: "pyval \<Rightarrow> rat option" where
  "num_of (PBool b) = Some (if b then 1 else 0)"
| "num_of (PInt i) = Some (of_int i)"
| "num_of (PFloat r) = Some r"
| "num_of _ = None"

fun py_eq :: "pyval \<Rightarrow> pyval \<Rightarrow> bool"
  and py_eq_list :: "pyval list \<Rightarrow> pyval list \<Rightarrow> bool"
  and py_eq_items :: "(string \<times> pyval) list \<Rightarrow> (string \<times> pyval) list \<Rightarrow> bool"
where
  "py_eq PNone b = (b = PNone)"
| "py_eq (PBool x) b = (num_of b = Some (if x then 1 else 0))"
| "py_eq (PInt i) b = (num_of b = Some (of_int i))"
| "py_eq (PFloat r) b = (num_of b = Some r)"
| "py_eq (PStr s) b = (b = PStr s)"
| "py_eq (PList xs) b = (case b of PList ys \<Rightarrow> py_eq_list xs ys | _ \<Rightarrow> False)"
| "py_eq (PDict kx) b =
     (case b of PDict ky \<Rightarrow> length kx = length ky \<and> py_eq_items kx ky | _ \<Rightarrow> False)"
| "py_eq (PInst n fs) b =
     (case b of PInst m gs \<Rightarrow> n = m \<and> py_eq_list (map snd fs) (map snd gs) | _ \<Rightarrow> False)"
| "py_eq_list [] ys = (ys = [])"
| "py_eq_list (x # xs) ys =
     (case ys of [] \<Rightarrow> False | y # ys' \<Rightarrow> py_eq x y \<and> py_eq_list xs ys')"
| "py_eq_items [] ky = True"
| "py_eq_items ((k, v) # kx) ky =
     (case map_of ky k of None \<Rightarrow> False | Some w \<Rightarrow> py_eq v w \<and> py_eq_items kx ky)"


section \<open>Commands, errors and the response envelope\<close>

text \<open>
  The seven command classes, each with its dataclass fields in declaration order.
  \<^verbatim>\<open>QueryClientState.height\<close> and \<^verbatim>\<open>proof\<close> keep their declared types: the source
  only ever leaves them at their defaults \<^verbatim>\<open>None\<close> and \<^verbatim>\<open>False\<close>.
\<close>

datatype cmd =
    TxCreateClient pyval pyval
      \<comment> \<open>\<^verbatim>\<open>dst_chain_id, src_chain_id\<close>\<close>
  | TxUpdateClient pyval pyval pyval
      \<comment> \<open>\<^verbatim>\<open>dst_chain_id, src_chain_id, dst_client_id\<close>\<close>
  | QueryClientState pyval pyval "int option" bool
      \<comment> \<open>\<^verbatim>\<open>chain_id, client_id, height, proof\<close>\<close>
  | TxConnInit pyval pyval pyval pyval
      \<comment> \<open>\<^verbatim>\<open>src_chain_id, dst_chain_id, src_client_id, dst_client_id\<close>\<close>
  | TxConnTry pyval pyval pyval pyval pyval
      \<comment> \<open>\<^verbatim>\<open>src_chain_id, dst_chain_id, src_client_id, dst_client_id, src_conn_id\<close>\<close>
  | TxConnAck pyval pyval pyval pyval pyval pyval
      \<comment> \<open>\<^verbatim>\<open>src_chain_id, dst_chain_id, src_client_id, dst_client_id, src_conn_id, dst_conn_id\<close>\<close>
  | TxConnConfirm pyval pyval pyval pyval pyval pyval
      \<comment> \<open>\<^verbatim>\<open>src_chain_id, dst_chain_id, src_client_id, dst_client_id, src_conn_id, dst_conn_id\<close>\<close>

text \<open>
  Every exception the modelled code can raise. \<open>ExpectedSuccess\<close> is the class of the
  source, with its three attributes; the others are Python's own. \<open>JSONDecodeError\<close> is
  what \<^verbatim>\<open>json.loads\<close> raises.
\<close>

datatype error =
    ExpectedSuccess cmd pyval pyval
  | KeyError
  | IndexError
  | TypeError
  | AttributeError
  | JSONDecodeError

text \<open>Sequencing of computations that may raise.\<close>

definition try_then :: "error + 'a \<Rightarrow> ('a \<Rightarrow> error + 'b) \<Rightarrow> error + 'b" where
  "try_then x f = (case x of Inl e \<Rightarrow> Inl e | Inr a \<Rightarrow> f a)"

subsection \<open>Subscripts, \<^verbatim>\<open>dict.get\<close> and attributes\<close>

text \<open>
  \<^verbatim>\<open>x[i]\<close> for an integer \<open>i\<close>. A dict has only \<^verbatim>\<open>str\<close> keys, so the lookup of an
  integer raises \<^verbatim>\<open>KeyError\<close>; a list or a string is indexed, from the end when \<open>i\<close> is
  negative (\<open>py_index\<close> is the position an index denotes in a sequence of the given
  length); nothing else is subscriptable.
\<close>

definition py_index :: "nat \<Rightarrow> int \<Rightarrow> nat option" where
  "py_index len i =
     (if 0 \<le> i \<and> i < int len then Some (nat i)
      else if - int len \<le> i \<and> i < 0 then Some (nat (int len + i))
      else None)"

fun getitem_int :: "pyval \<Rightarrow> int \<Rightarrow> error + pyval" where
  "getitem_int (PList xs) i =
     (case py_index (length xs) i of None \<Rightarrow> Inl IndexError | Some j \<Rightarrow> Inr (xs ! j))"
| "getitem_int (PStr s) i =
     (case py_index (length s) i of None \<Rightarrow> Inl IndexError | Some j \<Rightarrow> Inr (PStr [s ! j]))"
| "getitem_int (PDict kvs) i = Inl KeyError"
| "getitem_int _ i = Inl TypeError"

text \<open>\<^verbatim>\<open>x[k]\<close> for a string \<open>k\<close>: only a dict accepts it.\<close>

fun getitem_str :: "pyval \<Rightarrow> string \<Rightarrow> error + pyval" where
  "getitem_str (PDict kvs) k = (case map_of kvs k of None \<Rightarrow> Inl KeyError | Some v \<Rightarrow> Inr v)"
| "getitem_str _ k = Inl TypeError"

text \<open>\<^verbatim>\<open>x.get(k)\<close>: only a dict has the method.\<close>

fun get :: "pyval \<Rightarrow> string \<Rightarrow> error + pyval" where
  "get (PDict kvs) k = Inr (case map_of kvs k of None \<Rightarrow> PNone | Some v \<Rightarrow> v)"
| "get _ k = Inl AttributeError"

text \<open>\<^verbatim>\<open>x.a\<close> for a field \<open>a\<close> of a dataclass instance.\<close>

fun getattr :: "pyval \<Rightarrow> string \<Rightarrow> error + pyval" where
  "getattr (PInst n fs) a = (case map_of fs a of None \<Rightarrow> Inl AttributeError | Some v \<Rightarrow> Inr v)"
| "getattr _ a = Inl AttributeError"

subsection \<open>\<^verbatim>\<open>from_dict\<close> and the result classes\<close>

text \<open>
  What \<^verbatim>\<open>from_dict\<close> sees of its first argument: \<^verbatim>\<open>is_dataclass(klass)\<close> and, for a
  dataclass, the names and types of its fields in order. \<open>Plain\<close> is any class that is
  not a dataclass (\<^verbatim>\<open>int\<close>, \<^verbatim>\<open>ClientId\<close>, \<^verbatim>\<open>ConnectionId\<close>).
\<close>

datatype klass = Plain | Dataclass string "(string \<times> klass) list"

fun from_dict :: "klass \<Rightarrow> pyval \<Rightarrow> error + pyval"
  and from_dict_fields :: "(string \<times> klass) list \<Rightarrow> pyval \<Rightarrow> error + (string \<times> pyval) list"
where
  "from_dict Plain dikt = Inr dikt"
| "from_dict (Dataclass n fields) dikt =
     try_then (from_dict_fields fields dikt) (\<lambda>args. Inr (PInst n args))"
| "from_dict_fields [] dikt = Inr []"
| "from_dict_fields ((f, t) # fields) dikt =
     try_then (getitem_str dikt f) (\<lambda>v.
     try_then (from_dict t v) (\<lambda>x.
     try_then (from_dict_fields fields dikt) (\<lambda>args. Inr ((f, x) # args))))"

definition Height :: klass where
  "Height = Dataclass ''Height'' [(''revision_height'', Plain), (''revision_number'', Plain)]"

definition TxCreateClientRes :: klass where
  "TxCreateClientRes = Dataclass ''TxCreateClientRes'' [(''client_id'', Plain)]"

definition TxUpdateClientRes :: klass where
  "TxUpdateClientRes = Dataclass ''TxUpdateClientRes'' [(''consensus_height'', Height)]"

definition QueryClientStateRes :: klass where
  "QueryClientStateRes = Dataclass ''QueryClientStateRes'' [(''latest_height'', Height)]"

definition TxConnInitRes :: klass where
  "TxConnInitRes = Dataclass ''TxConnInitRes'' [(''connection_id'', Plain)]"

definition TxConnTryRes :: klass where
  "TxConnTryRes = Dataclass ''TxConnTryRes'' [(''connection_id'', Plain)]"

definition TxConnAckRes :: klass where
  "TxConnAckRes = Dataclass ''TxConnAckRes'' [(''connection_id'', Plain)]"

definition TxConnConfirmRes :: klass where
  "TxConnConfirmRes = Dataclass ''TxConnConfirmRes'' [(''connection_id'', Plain)]"

subsection \<open>The methods of the command classes\<close>

text \<open>\<^verbatim>\<open>str(i)\<close> for an \<^verbatim>\<open>int\<close>: decimal digits, with a minus sign when negative.\<close>

fun str_nat :: "nat \<Rightarrow> string" where
  "str_nat n = (if n < 10 then [char_of (48 + n)] else str_nat (n div 10) @ [char_of (48 + n mod 10)])"

definition str_int :: "int \<Rightarrow> string" where
  "str_int i = (if i < 0 then CHR ''-'' # str_nat (nat (- i)) else str_nat (nat i))"

fun name :: "cmd \<Rightarrow> string" where
  "name (TxCreateClient _ _) = ''tx raw create-client''"
| "name (TxUpdateClient _ _ _) = ''tx raw update-client''"
| "name (QueryClientState _ _ _ _) = ''query client state''"
| "name (TxConnInit _ _ _ _) = ''tx raw conn-init''"
| "name (TxConnTry _ _ _ _ _) = ''tx raw conn-try''"
| "name (TxConnAck _ _ _ _ _ _) = ''tx raw conn-ack''"
| "name (TxConnConfirm _ _ _ _ _ _) = ''tx raw conn-confirm''"

fun args :: "cmd \<Rightarrow> pyval list" where
  "args (TxCreateClient dst_chain_id src_chain_id) = [dst_chain_id, src_chain_id]"
| "args (TxUpdateClient dst_chain_id src_chain_id dst_client_id) =
     [dst_chain_id, src_chain_id, dst_client_id]"
| "args (QueryClientState chain_id client_id height proof) =
     (case height of None \<Rightarrow> [] | Some h \<Rightarrow> [PStr ''--height'', PStr (str_int h)])
     @ (if proof then [PStr ''--proof''] else [])
     @ [chain_id, client_id]"
| "args (TxConnInit src_chain_id dst_chain_id src_client_id dst_client_id) =
     [dst_chain_id, src_chain_id, dst_client_id, src_client_id,
      PStr ''default-conn'', PStr ''default-conn'']"
| "args (TxConnTry src_chain_id dst_chain_id src_client_id dst_client_id src_conn_id) =
     [dst_chain_id, src_chain_id, dst_client_id, src_client_id,
      PStr ''default-conn'', src_conn_id]"
| "args (TxConnAck src_chain_id dst_chain_id src_client_id dst_client_id src_conn_id dst_conn_id) =
     [dst_chain_id, src_chain_id, dst_client_id, src_client_id, dst_conn_id, src_conn_id]"
| "args (TxConnConfirm src_chain_id dst_chain_id src_client_id dst_client_id src_conn_id dst_conn_id) =
     [dst_chain_id, src_chain_id, dst_client_id, src_client_id, dst_conn_id, src_conn_id]"

text \<open>\<^verbatim>\<open>result[0][tag]\<close>\<close>

definition tagged :: "pyval \<Rightarrow> string \<Rightarrow> error + pyval" where
  "tagged result tag = try_then (getitem_int result 0) (\<lambda>r0. getitem_str r0 tag)"

fun process :: "cmd \<Rightarrow> pyval \<Rightarrow> error + pyval" where
  "process (TxCreateClient _ _) result =
     try_then (tagged result ''CreateClient'') (from_dict TxCreateClientRes)"
| "process (TxUpdateClient _ _ _) result =
     try_then (tagged result ''UpdateClient'') (from_dict TxUpdateClientRes)"
| "process (QueryClientState _ _ _ _) result =
     try_then (getitem_int result 0) (from_dict QueryClientStateRes)"
| "process (TxConnInit _ _ _ _) result =
     try_then (tagged result ''OpenInitConnection'') (from_dict TxConnInitRes)"
| "process (TxConnTry _ _ _ _ _) result =
     try_then (tagged result ''OpenTryConnection'') (from_dict TxConnTryRes)"
| "process (TxConnAck _ _ _ _ _ _) result =
     try_then (tagged result ''OpenAckConnection'') (from_dict TxConnAckRes)"
| "process (TxConnConfirm _ _ _ _ _ _) result =
     try_then (tagged result ''OpenConfirmConnection'') (from_dict TxConnConfirmRes)"

subsection \<open>\<^verbatim>\<open>CmdResult\<close>\<close>

datatype CmdResult = CmdResult (cmd: cmd) (result: pyval)

text \<open>
  \<^verbatim>\<open>CmdResult.success\<close>. Both \<^verbatim>\<open>.get\<close> calls come before the comparison; on a decoded
  reply that is not a dict the first one raises \<^verbatim>\<open>AttributeError\<close>. A string is the only
  value equal to \<^verbatim>\<open>"success"\<close>.
\<close>

definition success :: "CmdResult \<Rightarrow> error + pyval" where
  "success self =
     try_then (get (result self) ''status'') (\<lambda>s.
     let status = py_or s (PStr ''unknown'') in
     try_then (get (result self) ''result'') (\<lambda>r.
     let result = py_or r (PDict []) in
     if py_eq status (PStr ''success'')
     then process (cmd self) result
     else Inl (ExpectedSuccess (cmd self) status result)))"

section \<open>The executor\<close>

subsection \<open>String methods\<close>

text \<open>\<^verbatim>\<open>s.split(' ')\<close>: every single space separates; the result is never empty.\<close>

fun split_from :: "string \<Rightarrow> string \<Rightarrow> string list" where
  "split_from cur [] = [rev cur]"
| "split_from cur (c # cs) =
     (if c = CHR '' '' then rev cur # split_from [] cs else split_from (c # cur) cs)"

definition split_space :: "string \<Rightarrow> string list" where
  "split_space s = split_from [] s"

text \<open>\<^verbatim>\<open>' '.join(xs)\<close> on strings.\<close>

fun join_space :: "string list \<Rightarrow> string" where
  "join_space [] = []"
| "join_space [x] = x"
| "join_space (x # y # ys) = x @ CHR '' '' # join_space (y # ys)"

text \<open>
  \<^verbatim>\<open>' '.join(xs)\<close> raises \<^verbatim>\<open>TypeError\<close> unless every item is a \<^verbatim>\<open>str\<close>: \<open>strs xs\<close> is
  the list of the strings when they all are.
\<close>

fun strs :: "pyval list \<Rightarrow> string list option" where
  "strs [] = Some []"
| "strs (PStr s # xs) = (case strs xs of None \<Rightarrow> None | Some ss \<Rightarrow> Some (s # ss))"
| "strs (_ # xs) = None"

text \<open>
  The line boundaries of \<^verbatim>\<open>str.splitlines\<close> among the code points below 256:
  \<^verbatim>\<open>\n \r \v \f \x1c \x1d \x1e \x85\<close> (and \<^verbatim>\<open>\r\n\<close>, one boundary).
\<close>

definition linebreak :: "char \<Rightarrow> bool" where
  "linebreak c = (c \<in> set [CHR 0x0A, CHR 0x0D, CHR 0x0B, CHR 0x0C, CHR 0x1C, CHR 0x1D, CHR 0x1E, CHR 0x85])"

text \<open>
  \<^verbatim>\<open>s.splitlines()\<close>: a boundary ends the current line, which may be empty; what follows
  the last boundary is a line only when it is not empty.
\<close>

fun splitlines_from :: "string \<Rightarrow> string \<Rightarrow> string list" where
  "splitlines_from cur [] = (if cur = [] then [] else [rev cur])"
| "splitlines_from cur (c # cs) =
     (if linebreak c then
        rev cur # (case cs of
            d # ds \<Rightarrow> if c = CHR 0x0D \<and> d = CHR 0x0A then splitlines_from [] ds
                      else splitlines_from [] cs
          | [] \<Rightarrow> splitlines_from [] cs)
      else splitlines_from (c # cur) cs)"

definition splitlines :: "string \<Rightarrow> string list" where
  "splitlines s = splitlines_from [] s"

text \<open>\<^verbatim>\<open>''.join(lines[-1:])\<close>\<close>

definition last_line :: "string list \<Rightarrow> string" where
  "last_line lines = concat (drop (length lines - 1) lines)"

subsection \<open>Effects\<close>

text \<open>
  What a run does to the outside, in order: the processes it spawns (with their
  arguments), the delays of \<^verbatim>\<open>split\<close> and its log records. A log record made from an
  f-string carries the values formatted into it.
\<close>

datatype message =
    Created_client pyval
  | Updated_client_to pyval
  | Client_is_at pyval
  | ConnOpen_init pyval pyval
  | ConnOpen_try pyval pyval
  | ConnOpen_ack pyval pyval
  | ConnOpen_confirm pyval pyval
  | Incorrect_conn_ack pyval pyval
      \<comment> \<open>expected, got\<close>
  | Incorrect_conn_confirm pyval pyval
      \<comment> \<open>expected, got\<close>

datatype effect =
    Spawn "string list"
      \<comment> \<open>\<^verbatim>\<open>subprocess.run(full_cmd, capture_output=True, text=True)\<close>\<close>
  | Delay
      \<comment> \<open>\<^verbatim>\<open>sleep(0.5); print()\<close>\<close>
  | Debug string
  | Info message
  | Error message

text \<open>The commands issued in a trace of effects.\<close>

fun issued :: "effect list \<Rightarrow> string list list" where
  "issued [] = []"
| "issued (Spawn t # es) = t # issued es"
| "issued (_ # es) = issued es"

text \<open>
  A computation takes the trace so far and returns its outcome, a value or the exception
  raised, with the trace extended by its effects. The effects before an exception stay
  in the trace.
\<close>

type_synonym 'a io = "effect list \<Rightarrow> (error + 'a) \<times> effect list"

definition ret :: "'a \<Rightarrow> 'a io" where
  "ret a = (\<lambda>tr. (Inr a, tr))"

definition lift :: "error + 'a \<Rightarrow> 'a io" where
  "lift x = (\<lambda>tr. (x, tr))"

definition emit :: "effect \<Rightarrow> unit io" where
  "emit e = (\<lambda>tr. (Inr (), tr @ [e]))"

definition seq :: "'a io \<Rightarrow> ('a \<Rightarrow> 'b io) \<Rightarrow> 'b io" where
  "seq m f = (\<lambda>tr. case m tr of (Inl e, tr') \<Rightarrow> (Inl e, tr') | (Inr a, tr') \<Rightarrow> f a tr')"

subsection \<open>\<^verbatim>\<open>Cmd.run\<close>\<close>

text \<open>
  The two things outside the source that a run depends on:
  \<^item> \<open>agent\<close>: the standard output of the spawned relayer, as the decoded text that
    \<^verbatim>\<open>subprocess.run\<close> returns. It may depend on every command issued so far; its argument
    is the list of them, the current one last. Spawning is taken to succeed.
  \<^item> \<open>loads\<close>: \<^verbatim>\<open>json.loads\<close>, \<open>None\<close> where it raises.
\<close>

record env =
  agent :: "string list list \<Rightarrow> string"
  loads :: "string \<Rightarrow> pyval option"

text \<open>The tokens of \<^verbatim>\<open>full_cmd\<close>.\<close>

definition full_cmd :: "cmd \<Rightarrow> string \<Rightarrow> pyval list" where
  "full_cmd self config =
     map PStr (split_space (''cargo run --bin relayer -- -c '' @ config))
     @ map PStr (split_space (name self))
     @ args self"

text \<open>
  \<^verbatim>\<open>subprocess.run\<close>: the process is spawned and its standard output returned.
\<close>

definition spawn :: "env \<Rightarrow> string list \<Rightarrow> string io" where
  "spawn E toks = (\<lambda>tr. (Inr (agent E (issued tr @ [toks])), tr @ [Spawn toks]))"

text \<open>\<^verbatim>\<open>json.loads(s)\<close>\<close>

definition json_loads :: "env \<Rightarrow> string \<Rightarrow> error + pyval" where
  "json_loads E s = (case loads E s of None \<Rightarrow> Inl JSONDecodeError | Some v \<Rightarrow> Inr v)"

text \<open>
  \<^verbatim>\<open>Cmd.run\<close>. The first \<^verbatim>\<open>l.debug\<close> joins \<^verbatim>\<open>full_cmd\<close> into one string before anything is
  spawned, which raises \<^verbatim>\<open>TypeError\<close> when an argument is not a string.
\<close>

definition Cmd_run :: "env \<Rightarrow> cmd \<Rightarrow> string \<Rightarrow> CmdResult io" where
  "Cmd_run E self config =
     (case strs (full_cmd self config) of
        None \<Rightarrow> lift (Inl TypeError)
      | Some toks \<Rightarrow>
          seq (emit (Debug (join_space toks))) (\<lambda>_.
          seq (spawn E toks) (\<lambda>stdout.
          let lines = splitlines stdout;
              last_line = last_line lines
          in seq (emit (Debug last_line)) (\<lambda>_.
             seq (lift (json_loads E last_line)) (\<lambda>v.
             ret (CmdResult self v))))))"

section \<open>The orchestrator\<close>

text \<open>\<^verbatim>\<open>split\<close>\<close>

definition split :: "unit io" where
  "split = emit Delay"

text \<open>\<^verbatim>\<open>cmd.run(c).success()\<close>\<close>

definition run_success :: "env \<Rightarrow> cmd \<Rightarrow> string \<Rightarrow> pyval io" where
  "run_success E command c = seq (Cmd_run E command c) (\<lambda>r. lift (success r))"

subsection \<open>Client creation and manipulation\<close>

definition create_client :: "env \<Rightarrow> string \<Rightarrow> pyval \<Rightarrow> pyval \<Rightarrow> pyval io" where
  "create_client E c dst src =
     seq (run_success E (TxCreateClient dst src) c) (\<lambda>client.
     seq (lift (getattr client ''client_id'')) (\<lambda>client_id.
     seq (emit (Info (Created_client client_id))) (\<lambda>_.
     ret client)))"

definition update_client :: "env \<Rightarrow> string \<Rightarrow> pyval \<Rightarrow> pyval \<Rightarrow> pyval \<Rightarrow> pyval io" where
  "update_client E c dst src client_id =
     seq (run_success E (TxUpdateClient dst src client_id) c) (\<lambda>res.
     seq (lift (getattr res ''consensus_height'')) (\<lambda>consensus_height.
     seq (emit (Info (Updated_client_to consensus_height))) (\<lambda>_.
     ret res)))"

definition query_client_state :: "env \<Rightarrow> string \<Rightarrow> pyval \<Rightarrow> pyval \<Rightarrow> pyval io" where
  "query_client_state E c chain_id client_id =
     seq (run_success E (QueryClientState chain_id client_id None False) c) (\<lambda>res.
     seq (lift (getattr res ''latest_height'')) (\<lambda>latest_height.
     seq (emit (Info (Client_is_at latest_height))) (\<lambda>_.
     ret res)))"

definition create_update_query_client :: "env \<Rightarrow> string \<Rightarrow> pyval \<Rightarrow> pyval \<Rightarrow> pyval io" where
  "create_update_query_client E c dst src =
     seq (create_client E c dst src) (\<lambda>client.
     seq split (\<lambda>_.
     seq (lift (getattr client ''client_id'')) (\<lambda>client_id.
     seq (query_client_state E c dst client_id) (\<lambda>_.
     seq split (\<lambda>_.
     seq (lift (getattr client ''client_id'')) (\<lambda>client_id.
     seq (update_client E c dst src client_id) (\<lambda>_.
     seq split (\<lambda>_.
     seq (lift (getattr client ''client_id'')) (\<lambda>client_id.
     seq (query_client_state E c dst client_id) (\<lambda>_.
     seq split (\<lambda>_.
     lift (getattr client ''client_id''))))))))))))"

subsection \<open>Connection handshake\<close>

definition conn_init :: "env \<Rightarrow> string \<Rightarrow> pyval \<Rightarrow> pyval \<Rightarrow> pyval \<Rightarrow> pyval \<Rightarrow> pyval io" where
  "conn_init E c src dst src_client dst_client =
     seq (run_success E (TxConnInit src dst src_client dst_client) c) (\<lambda>res.
     seq (lift (getattr res ''connection_id'')) (\<lambda>connection_id.
     seq (emit (Info (ConnOpen_init dst connection_id))) (\<lambda>_.
     lift (getattr res ''connection_id''))))"

definition conn_try ::
  "env \<Rightarrow> string \<Rightarrow> pyval \<Rightarrow> pyval \<Rightarrow> pyval \<Rightarrow> pyval \<Rightarrow> pyval \<Rightarrow> pyval io" where
  "conn_try E c src dst src_client dst_client src_conn =
     seq (run_success E (TxConnTry src dst src_client dst_client src_conn) c) (\<lambda>res.
     seq (lift (getattr res ''connection_id'')) (\<lambda>connection_id.
     seq (emit (Info (ConnOpen_try dst connection_id))) (\<lambda>_.
     lift (getattr res ''connection_id''))))"

definition conn_ack ::
  "env \<Rightarrow> string \<Rightarrow> pyval \<Rightarrow> pyval \<Rightarrow> pyval \<Rightarrow> pyval \<Rightarrow> pyval \<Rightarrow> pyval \<Rightarrow> pyval io" where
  "conn_ack E c src dst src_client dst_client src_conn dst_conn =
     seq (run_success E (TxConnAck src dst src_client dst_client src_conn dst_conn) c) (\<lambda>res.
     seq (lift (getattr res ''connection_id'')) (\<lambda>connection_id.
     seq (emit (Info (ConnOpen_ack dst connection_id))) (\<lambda>_.
     lift (getattr res ''connection_id''))))"

definition conn_confirm ::
  "env \<Rightarrow> string \<Rightarrow> pyval \<Rightarrow> pyval \<Rightarrow> pyval \<Rightarrow> pyval \<Rightarrow> pyval \<Rightarrow> pyval \<Rightarrow> pyval io" where
  "conn_confirm E c src dst src_client dst_client src_conn dst_conn =
     seq (run_success E (TxConnConfirm src dst src_client dst_client src_conn dst_conn) c) (\<lambda>res.
     seq (lift (getattr res ''connection_id'')) (\<lambda>connection_id.
     seq (emit (Info (ConnOpen_confirm dst connection_id))) (\<lambda>_.
     lift (getattr res ''connection_id''))))"

text \<open>\<^verbatim>\<open>if a != b: l.error(...)\<close>\<close>

definition error_unless_eq :: "pyval \<Rightarrow> pyval \<Rightarrow> message \<Rightarrow> unit io" where
  "error_unless_eq a b m = (if \<not> py_eq a b then emit (Error m) else ret ())"

definition connection_handshake ::
  "env \<Rightarrow> string \<Rightarrow> pyval \<Rightarrow> pyval \<Rightarrow> pyval \<Rightarrow> pyval \<Rightarrow> (pyval \<times> pyval) io" where
  "connection_handshake E c side_a side_b client_a client_b =
     seq (conn_init E c side_a side_b client_a client_b) (\<lambda>a_conn_id.
     seq split (\<lambda>_.
     seq (conn_try E c side_b side_a client_b client_a a_conn_id) (\<lambda>b_conn_id.
     seq split (\<lambda>_.
     seq (conn_ack E c side_a side_b client_a client_b b_conn_id a_conn_id) (\<lambda>ack_res.
     seq (error_unless_eq ack_res a_conn_id (Incorrect_conn_ack a_conn_id ack_res)) (\<lambda>_.
     seq split (\<lambda>_.
     seq (conn_confirm E c side_b side_a client_b client_a a_conn_id b_conn_id) (\<lambda>confirm_res.
     seq (error_unless_eq confirm_res b_conn_id (Incorrect_conn_confirm b_conn_id confirm_res)) (\<lambda>_.
     ret (a_conn_id, b_conn_id))))))))))"

subsection \<open>The top level\<close>

definition IBC_0 :: pyval where
  "IBC_0 = PStr ''ibc-0''"

definition IBC_1 :: pyval where
  "IBC_1 = PStr ''ibc-1''"

definition run :: "env \<Rightarrow> string \<Rightarrow> unit io" where
  "run E c =
     seq (create_update_query_client E c IBC_0 IBC_1) (\<lambda>ibc0_client_id.
     seq (create_update_query_client E c IBC_1 IBC_0) (\<lambda>ibc1_client_id.
     seq split (\<lambda>_.
     seq (connection_handshake E c IBC_1 IBC_0 ibc1_client_id ibc0_client_id) (\<lambda>_.
     ret ()))))"

section \<open>Notions used to state the properties\<close>

subsection \<open>Command lines and replies\<close>

text \<open>The tokens before the operation name: the launcher and the configuration.\<close>

definition launcher :: "string \<Rightarrow> string list" where
  "launcher config = split_space (''cargo run --bin relayer -- -c '' @ config)"

text \<open>The argument vector of a command, when all its arguments are strings.\<close>

definition command_line :: "string \<Rightarrow> cmd \<Rightarrow> string list option" where
  "command_line c cm = map_option (\<lambda>a. launcher c @ split_space (name cm) @ a) (strs (args cm))"

text \<open>
  The line of the relayer's output that \<^verbatim>\<open>Cmd.run\<close> decodes, for the commands \<open>h\<close> issued
  so far, and what \<^verbatim>\<open>.success()\<close> makes of it for the command \<open>cm\<close>.
\<close>

definition reply_line :: "env \<Rightarrow> string list list \<Rightarrow> string" where
  "reply_line E h = last_line (splitlines (agent E h))"

definition unwrapped :: "env \<Rightarrow> cmd \<Rightarrow> string list list \<Rightarrow> error + pyval" where
  "unwrapped E cm h = try_then (json_loads E (reply_line E h)) (\<lambda>v. success (CmdResult cm v))"

text \<open>The attribute \<open>f\<close> of that result: what a step reads from the reply.\<close>

definition yields :: "env \<Rightarrow> cmd \<Rightarrow> string list list \<Rightarrow> string \<Rightarrow> error + pyval" where
  "yields E cm h f = try_then (unwrapped E cm h) (\<lambda>res. getattr res f)"

text \<open>
  The effects of \<^verbatim>\<open>Cmd.run\<close> for the command line \<open>toks\<close> after the commands \<open>h\<close>: the
  two debug records and the process between them.
\<close>

definition step_trace :: "env \<Rightarrow> string list list \<Rightarrow> string list \<Rightarrow> effect list" where
  "step_trace E h toks = [Debug (join_space toks), Spawn toks, Debug (reply_line E (h @ [toks]))]"

text \<open>The field \<open>k\<close> of a decoded JSON object, \<^verbatim>\<open>None\<close> when absent: \<^verbatim>\<open>d.get(k)\<close>.\<close>

definition field :: "(string \<times> pyval) list \<Rightarrow> string \<Rightarrow> pyval" where
  "field kvs k = (case map_of kvs k of None \<Rightarrow> PNone | Some v \<Rightarrow> v)"

subsection \<open>The rhythm of a trace\<close>

text \<open>
  The commands and delays of a trace, in order, with the command arguments and the log
  records left out.
\<close>

fun rhythm :: "effect list \<Rightarrow> effect list" where
  "rhythm [] = []"
| "rhythm (Spawn t # es) = Spawn [] # rhythm es"
| "rhythm (Delay # es) = Delay # rhythm es"
| "rhythm (_ # es) = rhythm es"





subsection \<open>The specification's wording, where it differs from the code\<close>

text \<open>
  The envelope's unwrap as the specification words it: the status defaults to
  \<^verbatim>\<open>"unknown"\<close> and the result to the empty structure when the field is absent; on
  \<^verbatim>\<open>"success"\<close> the result goes to the command's \<open>process\<close>, any other status raises
  \<open>ExpectedSuccess\<close> with that status and that result.
\<close>

definition unwrap_spec :: "cmd \<Rightarrow> (string \<times> pyval) list \<Rightarrow> error + pyval" where
  "unwrap_spec c kvs =
     (let status = (case map_of kvs ''status'' of None \<Rightarrow> PStr ''unknown'' | Some s \<Rightarrow> s);
          result = (case map_of kvs ''result'' of None \<Rightarrow> PDict [] | Some r \<Rightarrow> r)
      in if status = PStr ''success'' then process c result
         else Inl (ExpectedSuccess c status result))"




subsection \<open>Refused commands\<close>

text \<open>
  \<open>refused E h kvs\<close>: the reply to the last command of \<open>h\<close> decodes to the JSON object
  \<open>kvs\<close>, whose status is not \<^verbatim>\<open>"success"\<close>.
\<close>

definition refused :: "env \<Rightarrow> string list list \<Rightarrow> (string \<times> pyval) list \<Rightarrow> bool" where
  "refused E h kvs \<longleftrightarrow>
     loads E (reply_line E h) = Some (PDict kvs) \<and> field kvs ''status'' \<noteq> PStr ''success''"

text \<open>
  \<open>stops_at_refusal E m\<close>: \<open>m\<close> only adds commands, and when one of those it adds is
  refused, that command is its last and \<open>m\<close> raises the \<open>ExpectedSuccess\<close> of that reply.
\<close>

definition stops_at_refusal :: "env \<Rightarrow> 'a io \<Rightarrow> bool" where
  "stops_at_refusal E m \<longleftrightarrow>
     (\<forall>tr out tr'. m tr = (out, tr') \<longrightarrow>
        prefix (issued tr) (issued tr') \<and>
        (\<forall>h kvs. prefix h (issued tr') \<and> \<not> prefix h (issued tr) \<and> refused E h kvs \<longrightarrow>
           h = issued tr' \<and>
           (\<exists>cm. out = Inl (ExpectedSuccess cm (py_or (field kvs ''status'') (PStr ''unknown''))
                                               (py_or (field kvs ''result'') (PDict []))))))"

subsection \<open>Sample relayers\<close>

text \<open>
  A relayer that answers every command with a well-formed success reply, after a line of
  build output for \<^verbatim>\<open>create-client\<close>; its \<^verbatim>\<open>conn-ack\<close> reply names a connection other than
  the one \<^verbatim>\<open>conn-init\<close> produced. Its output lines are short marks, and \<open>sample_loads\<close>
  gives the value each mark stands for.
\<close>

definition sample_agent :: "string list list \<Rightarrow> string" where
  "sample_agent h =
     (let t = last h in
      if ''create-client'' \<in> set t then ''Compiling relayer'' @ [CHR 0x0A] @ ''created'' @ [CHR 0x0A]
      else if ''update-client'' \<in> set t then ''updated''
      else if ''query'' \<in> set t then ''queried'' @ [CHR 0x0A]
      else if ''conn-init'' \<in> set t then ''init''
      else if ''conn-try'' \<in> set t then ''try''
      else if ''conn-ack'' \<in> set t then ''ack''
      else ''confirm'')"

definition ok :: "pyval \<Rightarrow> pyval" where
  "ok r = PDict [(''status'', PStr ''success''), (''result'', r)]"

definition sample_height :: pyval where
  "sample_height = PDict [(''revision_number'', PInt 0), (''revision_height'', PInt 7)]"

definition sample_loads :: "string \<Rightarrow> pyval option" where
  "sample_loads s =
    (if s = ''created'' then
       Some (ok (PList [PDict [(''CreateClient'', PDict [(''client_id'', PStr ''07-tendermint-0'')])]]))
     else if s = ''updated'' then
       Some (ok (PList [PDict [(''UpdateClient'', PDict [(''consensus_height'', sample_height)])]]))
     else if s = ''queried'' then
       Some (ok (PList [PDict [(''latest_height'', sample_height)]]))
     else if s = ''init'' then
       Some (ok (PList [PDict [(''OpenInitConnection'', PDict [(''connection_id'', PStr ''connection-0'')])]]))
     else if s = ''try'' then
       Some (ok (PList [PDict [(''OpenTryConnection'', PDict [(''connection_id'', PStr ''connection-1'')])]]))
     else if s = ''ack'' then
       Some (ok (PList [PDict [(''OpenAckConnection'', PDict [(''connection_id'', PStr ''connection-9'')])]]))
     else if s = ''confirm'' then
       Some (ok (PList [PDict [(''OpenConfirmConnection'', PDict [(''connection_id'', PStr ''connection-1'')])]]))
     else None)"

definition sample_env :: env where
  "sample_env = \<lparr>agent = sample_agent, loads = sample_loads\<rparr>"

text \<open>
  A relayer whose every reply is
  \<^verbatim>\<open>{"status": "error", "result": {"msg": "boom"}}\<close>.
\<close>

definition boom :: pyval where
  "boom = PDict [(''status'', PStr ''error''), (''result'', PDict [(''msg'', PStr ''boom'')])]"

definition boom_env :: env where
  "boom_env = \<lparr>agent = (\<lambda>h. ''boom''), loads = (\<lambda>s. Some boom)\<rparr>"




section \<open>Lemmas\<close>

declare str_nat.simps [simp del]

lemma issued_append [simp]: "issued (a @ b) = issued a @ issued b"
  by (induction a rule: issued.induct) auto

lemma rhythm_append [simp]: "rhythm (a @ b) = rhythm a @ rhythm b"
  by (induction a rule: rhythm.induct) auto

lemma lift_apply [simp]: "lift x tr = (x, tr)"
  by (simp add: lift_def)

lemma ret_apply [simp]: "ret a tr = (Inr a, tr)"
  by (simp add: ret_def)

lemma emit_apply [simp]: "emit e tr = (Inr (), tr @ [e])"
  by (simp add: emit_def)

lemma split_apply [simp]: "split tr = (Inr (), tr @ [Delay])"
  by (simp add: split_def)

lemma seq_Inr:
  "seq m f tr = (Inr b, tr'') \<longleftrightarrow> (\<exists>a tr'. m tr = (Inr a, tr') \<and> f a tr' = (Inr b, tr''))"
  by (auto simp: seq_def split: prod.splits sum.splits)

lemma try_then_Inr [simp]: "try_then (Inr a) f = f a"
  by (simp add: try_then_def)

lemma try_then_Inl [simp]: "try_then (Inl e) f = Inl e"
  by (simp add: try_then_def)

lemma strs_map_PStr [simp]: "strs (map PStr xs @ ys) = map_option ((@) xs) (strs ys)"
  by (induction xs) (auto split: option.splits simp: option.map_comp comp_def option.map_ident)

lemma strs_Some_iff [simp]:
  "strs [] = Some t \<longleftrightarrow> t = []"
  "strs (x # xs) = Some t \<longleftrightarrow> (\<exists>s ss. x = PStr s \<and> strs xs = Some ss \<and> t = s # ss)"
  by (cases x; auto split: option.splits)+

lemma name_split:
  "split_space ''tx raw create-client'' = [''tx'', ''raw'', ''create-client'']"
  "split_space ''tx raw update-client'' = [''tx'', ''raw'', ''update-client'']"
  "split_space ''query client state'' = [''query'', ''client'', ''state'']"
  "split_space ''tx raw conn-init'' = [''tx'', ''raw'', ''conn-init'']"
  "split_space ''tx raw conn-try'' = [''tx'', ''raw'', ''conn-try'']"
  "split_space ''tx raw conn-ack'' = [''tx'', ''raw'', ''conn-ack'']"
  "split_space ''tx raw conn-confirm'' = [''tx'', ''raw'', ''conn-confirm'']"
  by (simp_all add: split_space_def)

text \<open>
  \<^verbatim>\<open>cmd.run(c).success()\<close> in one equation: nothing happens when an argument is not a
  string; otherwise the command is issued, and the outcome is what the reply unwraps to.
\<close>

lemma run_success_total:
  "run_success E cm c tr =
     (case command_line c cm of
        None \<Rightarrow> (Inl TypeError, tr)
      | Some toks \<Rightarrow>
          (unwrapped E cm (issued tr @ [toks]),
           tr @ [Debug (join_space toks), Spawn toks, Debug (reply_line E (issued tr @ [toks]))]))"
  by (auto simp: run_success_def Cmd_run_def full_cmd_def launcher_def reply_line_def seq_def
        spawn_def json_loads_def Let_def unwrapped_def command_line_def
      split: option.splits)

subsection \<open>Composing rhythms\<close>
















subsection \<open>The envelope and \<open>process\<close>\<close>

lemma str_nat_nonempty: "str_nat n \<noteq> []"
  by (subst str_nat.simps) simp

lemma str_int_nonempty: "str_int i \<noteq> []"
  by (simp add: str_int_def str_nat_nonempty)

lemma py_eq_PStr: "py_eq v (PStr s) \<longleftrightarrow> v = PStr s"
  by (cases v) auto

lemma success_dict:
  "success (CmdResult c (PDict kvs)) =
     (let status = py_or (field kvs ''status'') (PStr ''unknown'');
          payload = py_or (field kvs ''result'') (PDict [])
      in if status = PStr ''success'' then process c payload
         else Inl (ExpectedSuccess c status payload))"
  by (simp add: success_def field_def Let_def py_eq_PStr)

lemma py_index_0 [simp]: "py_index n 0 = (if n = 0 then None else Some 0)"
  by (simp add: py_index_def)

lemma tagged_list [simp]:
  "tagged (PList (PDict tags # rest)) t =
     (case map_of tags t of None \<Rightarrow> Inl KeyError | Some v \<Rightarrow> Inr v)"
  by (simp add: tagged_def)

lemma tagged_empty [simp]: "tagged (PList []) t = Inl IndexError"
  by (simp add: tagged_def)

lemma tagged_dict [simp]: "tagged (PDict kvs) t = Inl KeyError"
  by (simp add: tagged_def)

lemmas klass_defs = Height_def TxCreateClientRes_def TxUpdateClientRes_def QueryClientStateRes_def
  TxConnInitRes_def TxConnTryRes_def TxConnAckRes_def TxConnConfirmRes_def






subsection \<open>Lines\<close>

lemma linebreak_LF [simp]: "linebreak (CHR 0x0A)"
  by (simp add: linebreak_def)



declare splitlines_from.simps(2) [simp del]






lemma last_line_single [simp]: "last_line [l] = l"
  by (simp add: last_line_def)

subsection \<open>Steps\<close>

lemma issued_step_trace [simp]: "issued (step_trace E h toks) = [toks]"
  by (simp add: step_trace_def)

text \<open>A step: run the command, unwrap the reply, read a field of the result, log it.\<close>

lemma step_total:
  "seq (run_success E cm c) (\<lambda>res.
     seq (lift (getattr res f)) (\<lambda>x.
     seq (emit (Info (M x))) (\<lambda>_. K res))) tr =
   (case command_line c cm of
      None \<Rightarrow> (Inl TypeError, tr)
    | Some toks \<Rightarrow>
       (case unwrapped E cm (issued tr @ [toks]) of
          Inl e \<Rightarrow> (Inl e, tr @ step_trace E (issued tr) toks)
        | Inr res \<Rightarrow>
           (case getattr res f of
              Inl e \<Rightarrow> (Inl e, tr @ step_trace E (issued tr) toks)
            | Inr x \<Rightarrow> K res (tr @ step_trace E (issued tr) toks @ [Info (M x)]))))"
  by (auto simp: seq_def run_success_total step_trace_def split: option.splits sum.splits)

lemma conn_step_total:
  "seq (run_success E cm c) (\<lambda>res.
     seq (lift (getattr res f)) (\<lambda>x.
     seq (emit (Info (M x))) (\<lambda>_. lift (getattr res f)))) tr =
   (case command_line c cm of
      None \<Rightarrow> (Inl TypeError, tr)
    | Some toks \<Rightarrow>
       (case yields E cm (issued tr @ [toks]) f of
          Inl e \<Rightarrow> (Inl e, tr @ step_trace E (issued tr) toks)
        | Inr x \<Rightarrow> (Inr x, tr @ step_trace E (issued tr) toks @ [Info (M x)])))"
  by (auto simp: step_total yields_def split: option.splits sum.splits)

lemma res_step_total:
  "seq (run_success E cm c) (\<lambda>res.
     seq (lift (getattr res f)) (\<lambda>x.
     seq (emit (Info (M x))) (\<lambda>_. ret res))) tr =
   (case command_line c cm of
      None \<Rightarrow> (Inl TypeError, tr)
    | Some toks \<Rightarrow>
       (case unwrapped E cm (issued tr @ [toks]) of
          Inl e \<Rightarrow> (Inl e, tr @ step_trace E (issued tr) toks)
        | Inr res \<Rightarrow>
           (case getattr res f of
              Inl e \<Rightarrow> (Inl e, tr @ step_trace E (issued tr) toks)
            | Inr x \<Rightarrow> (Inr res, tr @ step_trace E (issued tr) toks @ [Info (M x)]))))"
  by (auto simp: step_total split: option.splits sum.splits)

lemma command_line_Some:
  "command_line c (TxCreateClient dst src) = Some t \<longleftrightarrow>
     (\<exists>d s. dst = PStr d \<and> src = PStr s
        \<and> t = launcher c @ [''tx'', ''raw'', ''create-client'', d, s])"
  "command_line c (TxUpdateClient dst src i) = Some t \<longleftrightarrow>
     (\<exists>d s j. dst = PStr d \<and> src = PStr s \<and> i = PStr j
        \<and> t = launcher c @ [''tx'', ''raw'', ''update-client'', d, s, j])"
  "command_line c (QueryClientState dst i None False) = Some t \<longleftrightarrow>
     (\<exists>d j. dst = PStr d \<and> i = PStr j
        \<and> t = launcher c @ [''query'', ''client'', ''state'', d, j])"
  "command_line c (TxConnInit src dst sc dc) = Some t \<longleftrightarrow>
     (\<exists>s d x y. src = PStr s \<and> dst = PStr d \<and> sc = PStr x \<and> dc = PStr y
        \<and> t = launcher c
              @ [''tx'', ''raw'', ''conn-init'', d, s, y, x, ''default-conn'', ''default-conn''])"
  "command_line c (TxConnTry src dst sc dc sn) = Some t \<longleftrightarrow>
     (\<exists>s d x y m. src = PStr s \<and> dst = PStr d \<and> sc = PStr x \<and> dc = PStr y \<and> sn = PStr m
        \<and> t = launcher c @ [''tx'', ''raw'', ''conn-try'', d, s, y, x, ''default-conn'', m])"
  "command_line c (TxConnAck src dst sc dc sn dn) = Some t \<longleftrightarrow>
     (\<exists>s d x y m n. src = PStr s \<and> dst = PStr d \<and> sc = PStr x \<and> dc = PStr y
        \<and> sn = PStr m \<and> dn = PStr n
        \<and> t = launcher c @ [''tx'', ''raw'', ''conn-ack'', d, s, y, x, n, m])"
  "command_line c (TxConnConfirm src dst sc dc sn dn) = Some t \<longleftrightarrow>
     (\<exists>s d x y m n. src = PStr s \<and> dst = PStr d \<and> sc = PStr x \<and> dc = PStr y
        \<and> sn = PStr m \<and> dn = PStr n
        \<and> t = launcher c @ [''tx'', ''raw'', ''conn-confirm'', d, s, y, x, n, m])"
  by (auto simp: command_line_def name_split split: option.splits)

lemma create_client_Inr:
  "create_client E c dst src tr = (Inr client, tr') \<longleftrightarrow>
     (\<exists>toks i. command_line c (TxCreateClient dst src) = Some toks
        \<and> unwrapped E (TxCreateClient dst src) (issued tr @ [toks]) = Inr client
        \<and> getattr client ''client_id'' = Inr i
        \<and> tr' = tr @ step_trace E (issued tr) toks @ [Info (Created_client i)])"
  by (auto simp: create_client_def res_step_total split: option.splits sum.splits)

lemma update_client_Inr:
  "update_client E c dst src i tr = (Inr res, tr') \<longleftrightarrow>
     (\<exists>toks x. command_line c (TxUpdateClient dst src i) = Some toks
        \<and> unwrapped E (TxUpdateClient dst src i) (issued tr @ [toks]) = Inr res
        \<and> getattr res ''consensus_height'' = Inr x
        \<and> tr' = tr @ step_trace E (issued tr) toks @ [Info (Updated_client_to x)])"
  by (auto simp: update_client_def res_step_total split: option.splits sum.splits)

lemma query_client_state_Inr:
  "query_client_state E c dst i tr = (Inr res, tr') \<longleftrightarrow>
     (\<exists>toks x. command_line c (QueryClientState dst i None False) = Some toks
        \<and> unwrapped E (QueryClientState dst i None False) (issued tr @ [toks]) = Inr res
        \<and> getattr res ''latest_height'' = Inr x
        \<and> tr' = tr @ step_trace E (issued tr) toks @ [Info (Client_is_at x)])"
  by (auto simp: query_client_state_def res_step_total split: option.splits sum.splits)

lemma lifecycle_returns:
  assumes "create_update_query_client E c dst src tr = (Inr cid, tr')"
  shows "\<exists>d s i client tr1.
           dst = PStr d \<and> src = PStr s \<and> cid = PStr i
         \<and> create_client E c dst src tr = (Inr client, tr1)
         \<and> getattr client ''client_id'' = Inr cid
         \<and> issued tr' = issued tr @
             [launcher c @ [''tx'', ''raw'', ''create-client'', d, s],
              launcher c @ [''query'', ''client'', ''state'', d, i],
              launcher c @ [''tx'', ''raw'', ''update-client'', d, s, i],
              launcher c @ [''query'', ''client'', ''state'', d, i]]"
proof -
  from assms obtain client tr1 q1 tr2 u tr3 q2 tr4 where
    cr: "create_client E c dst src tr = (Inr client, tr1)" and
    at: "getattr client ''client_id'' = Inr cid" and
    q1: "query_client_state E c dst cid (tr1 @ [Delay]) = (Inr q1, tr2)" and
    up: "update_client E c dst src cid (tr2 @ [Delay]) = (Inr u, tr3)" and
    q2: "query_client_state E c dst cid (tr3 @ [Delay]) = (Inr q2, tr4)" and
    fin: "tr' = tr4 @ [Delay]"
    unfolding create_update_query_client_def seq_Inr by auto
  from cr obtain d s where ds: "dst = PStr d" "src = PStr s"
    and i1: "issued tr1 = issued tr @ [launcher c @ [''tx'', ''raw'', ''create-client'', d, s]]"
    by (auto simp: create_client_Inr command_line_Some)
  from q1 ds obtain i where i: "cid = PStr i"
    and i2: "issued tr2 = issued tr1 @ [launcher c @ [''query'', ''client'', ''state'', d, i]]"
    by (auto simp: query_client_state_Inr command_line_Some)
  from up ds i
  have i3: "issued tr3 = issued tr2 @ [launcher c @ [''tx'', ''raw'', ''update-client'', d, s, i]]"
    by (auto simp: update_client_Inr command_line_Some)
  from q2 ds i
  have i4: "issued tr4 = issued tr3 @ [launcher c @ [''query'', ''client'', ''state'', d, i]]"
    by (auto simp: query_client_state_Inr command_line_Some)
  from ds i cr at i1 i2 i3 i4 fin show ?thesis by simp
qed

subsection \<open>The steps in full\<close>

lemma seq_apply:
  "seq m f tr = (case m tr of (Inl e, tr') \<Rightarrow> (Inl e, tr') | (Inr a, tr') \<Rightarrow> f a tr')"
  by (simp add: seq_def)

lemma create_client_total:
  "create_client E c dst src tr =
     (case command_line c (TxCreateClient dst src) of
        None \<Rightarrow> (Inl TypeError, tr)
      | Some toks \<Rightarrow>
         (case unwrapped E (TxCreateClient dst src) (issued tr @ [toks]) of
            Inl e \<Rightarrow> (Inl e, tr @ step_trace E (issued tr) toks)
          | Inr client \<Rightarrow>
             (case getattr client ''client_id'' of
                Inl e \<Rightarrow> (Inl e, tr @ step_trace E (issued tr) toks)
              | Inr i \<Rightarrow> (Inr client, tr @ step_trace E (issued tr) toks @ [Info (Created_client i)]))))"
  by (simp add: create_client_def res_step_total)

lemma update_client_total:
  "update_client E c dst src i tr =
     (case command_line c (TxUpdateClient dst src i) of
        None \<Rightarrow> (Inl TypeError, tr)
      | Some toks \<Rightarrow>
         (case unwrapped E (TxUpdateClient dst src i) (issued tr @ [toks]) of
            Inl e \<Rightarrow> (Inl e, tr @ step_trace E (issued tr) toks)
          | Inr res \<Rightarrow>
             (case getattr res ''consensus_height'' of
                Inl e \<Rightarrow> (Inl e, tr @ step_trace E (issued tr) toks)
              | Inr x \<Rightarrow> (Inr res, tr @ step_trace E (issued tr) toks @ [Info (Updated_client_to x)]))))"
  by (simp add: update_client_def res_step_total)

lemma query_client_state_total:
  "query_client_state E c dst i tr =
     (case command_line c (QueryClientState dst i None False) of
        None \<Rightarrow> (Inl TypeError, tr)
      | Some toks \<Rightarrow>
         (case unwrapped E (QueryClientState dst i None False) (issued tr @ [toks]) of
            Inl e \<Rightarrow> (Inl e, tr @ step_trace E (issued tr) toks)
          | Inr res \<Rightarrow>
             (case getattr res ''latest_height'' of
                Inl e \<Rightarrow> (Inl e, tr @ step_trace E (issued tr) toks)
              | Inr x \<Rightarrow> (Inr res, tr @ step_trace E (issued tr) toks @ [Info (Client_is_at x)]))))"
  by (simp add: query_client_state_def res_step_total)

lemma conn_init_total:
  "conn_init E c src dst sc dc tr =
     (case command_line c (TxConnInit src dst sc dc) of
        None \<Rightarrow> (Inl TypeError, tr)
      | Some toks \<Rightarrow>
         (case yields E (TxConnInit src dst sc dc) (issued tr @ [toks]) ''connection_id'' of
            Inl e \<Rightarrow> (Inl e, tr @ step_trace E (issued tr) toks)
          | Inr x \<Rightarrow> (Inr x, tr @ step_trace E (issued tr) toks @ [Info (ConnOpen_init dst x)])))"
  by (simp add: conn_init_def conn_step_total)

lemma conn_try_total:
  "conn_try E c src dst sc dc sn tr =
     (case command_line c (TxConnTry src dst sc dc sn) of
        None \<Rightarrow> (Inl TypeError, tr)
      | Some toks \<Rightarrow>
         (case yields E (TxConnTry src dst sc dc sn) (issued tr @ [toks]) ''connection_id'' of
            Inl e \<Rightarrow> (Inl e, tr @ step_trace E (issued tr) toks)
          | Inr x \<Rightarrow> (Inr x, tr @ step_trace E (issued tr) toks @ [Info (ConnOpen_try dst x)])))"
  by (simp add: conn_try_def conn_step_total)

lemma conn_ack_total:
  "conn_ack E c src dst sc dc sn dn tr =
     (case command_line c (TxConnAck src dst sc dc sn dn) of
        None \<Rightarrow> (Inl TypeError, tr)
      | Some toks \<Rightarrow>
         (case yields E (TxConnAck src dst sc dc sn dn) (issued tr @ [toks]) ''connection_id'' of
            Inl e \<Rightarrow> (Inl e, tr @ step_trace E (issued tr) toks)
          | Inr x \<Rightarrow> (Inr x, tr @ step_trace E (issued tr) toks @ [Info (ConnOpen_ack dst x)])))"
  by (simp add: conn_ack_def conn_step_total)

lemma conn_confirm_total:
  "conn_confirm E c src dst sc dc sn dn tr =
     (case command_line c (TxConnConfirm src dst sc dc sn dn) of
        None \<Rightarrow> (Inl TypeError, tr)
      | Some toks \<Rightarrow>
         (case yields E (TxConnConfirm src dst sc dc sn dn) (issued tr @ [toks]) ''connection_id'' of
            Inl e \<Rightarrow> (Inl e, tr @ step_trace E (issued tr) toks)
          | Inr x \<Rightarrow> (Inr x, tr @ step_trace E (issued tr) toks @ [Info (ConnOpen_confirm dst x)])))"
  by (simp add: conn_confirm_def conn_step_total)

lemmas conn_totals = conn_init_total conn_try_total conn_ack_total conn_confirm_total

lemma command_line_strs:
  "command_line c (TxConnInit (PStr s) (PStr d) (PStr x) (PStr y))
     = Some (launcher c @ [''tx'', ''raw'', ''conn-init'', d, s, y, x, ''default-conn'', ''default-conn''])"
  "command_line c (TxConnTry (PStr s) (PStr d) (PStr x) (PStr y) (PStr m))
     = Some (launcher c @ [''tx'', ''raw'', ''conn-try'', d, s, y, x, ''default-conn'', m])"
  "command_line c (TxConnAck (PStr s) (PStr d) (PStr x) (PStr y) (PStr m) (PStr n))
     = Some (launcher c @ [''tx'', ''raw'', ''conn-ack'', d, s, y, x, n, m])"
  "command_line c (TxConnConfirm (PStr s) (PStr d) (PStr x) (PStr y) (PStr m) (PStr n))
     = Some (launcher c @ [''tx'', ''raw'', ''conn-confirm'', d, s, y, x, n, m])"
  by (simp_all add: command_line_Some)

text \<open>The handshake once INIT, TRY and ACK have returned.\<close>

lemma handshake_after_ack:
  fixes E :: env and c :: string and tr :: "effect list" and k :: pyval
    and A B ca cb a b :: string
  defines "t_init \<equiv> launcher c @ [''tx'', ''raw'', ''conn-init'', B, A, cb, ca, ''default-conn'', ''default-conn'']"
      and "t_try \<equiv> launcher c @ [''tx'', ''raw'', ''conn-try'', A, B, ca, cb, ''default-conn'', a]"
      and "t_ack \<equiv> launcher c @ [''tx'', ''raw'', ''conn-ack'', B, A, cb, ca, a, b]"
      and "t_confirm \<equiv> launcher c @ [''tx'', ''raw'', ''conn-confirm'', A, B, ca, cb, b, a]"
  defines "h \<equiv> issued tr"
  defines "before_confirm \<equiv>
      tr @ step_trace E h t_init @ [Info (ConnOpen_init (PStr B) (PStr a)), Delay]
         @ step_trace E (h @ [t_init]) t_try @ [Info (ConnOpen_try (PStr A) (PStr b)), Delay]
         @ step_trace E (h @ [t_init, t_try]) t_ack @ [Info (ConnOpen_ack (PStr B) k)]
         @ (if py_eq k (PStr a) then [] else [Error (Incorrect_conn_ack (PStr a) k)])
         @ [Delay]
         @ step_trace E (h @ [t_init, t_try, t_ack]) t_confirm"
  assumes init: "yields E (TxConnInit (PStr A) (PStr B) (PStr ca) (PStr cb)) (h @ [t_init])
                   ''connection_id'' = Inr (PStr a)"
      and try_ok: "yields E (TxConnTry (PStr B) (PStr A) (PStr cb) (PStr ca) (PStr a)) (h @ [t_init, t_try])
                   ''connection_id'' = Inr (PStr b)"
      and ack: "yields E (TxConnAck (PStr A) (PStr B) (PStr ca) (PStr cb) (PStr b) (PStr a))
                   (h @ [t_init, t_try, t_ack]) ''connection_id'' = Inr k"
  shows "connection_handshake E c (PStr A) (PStr B) (PStr ca) (PStr cb) tr =
     (case yields E (TxConnConfirm (PStr B) (PStr A) (PStr cb) (PStr ca) (PStr a) (PStr b))
             (h @ [t_init, t_try, t_ack, t_confirm]) ''connection_id'' of
        Inl e \<Rightarrow> (Inl e, before_confirm)
      | Inr k' \<Rightarrow>
          (Inr (PStr a, PStr b),
           before_confirm @ [Info (ConnOpen_confirm (PStr A) k')]
             @ (if py_eq k' (PStr b) then [] else [Error (Incorrect_conn_confirm (PStr b) k')])))"
  using init try_ok ack
  unfolding connection_handshake_def before_confirm_def h_def t_init_def t_try_def t_ack_def t_confirm_def
  by (simp add: seq_apply conn_totals command_line_strs error_unless_eq_def split: sum.splits)









subsection \<open>The sample relayers at work\<close>

lemma sample_launcher:
  "launcher ''cfg.toml'' = [''cargo'', ''run'', ''--bin'', ''relayer'', ''--'', ''-c'', ''cfg.toml'']"
  by (simp add: launcher_def split_space_def)

lemmas step_totals = create_client_total update_client_total query_client_state_total conn_totals

lemmas sample_simps = step_totals command_line_def name_split
  sample_launcher unwrapped_def yields_def json_loads_def reply_line_def step_trace_def
  sample_env_def sample_agent_def sample_loads_def ok_def sample_height_def
  splitlines_def splitlines_from.simps(2) linebreak_def last_line_def
  success_dict field_def py_or_def klass_defs IBC_0_def IBC_1_def
  error_unless_eq_def seq_apply

lemma sample_lifecycle:
  "\<exists>tr. create_update_query_client sample_env ''cfg.toml'' IBC_0 IBC_1 []
         = (Inr (PStr ''07-tendermint-0''), tr)"
  by (simp add: create_update_query_client_def sample_simps)




subsection \<open>Refusals\<close>

lemma stops_seq:
  assumes "stops_at_refusal E m" and "\<And>a. stops_at_refusal E (f a)"
  shows "stops_at_refusal E (seq m f)"
  unfolding stops_at_refusal_def
proof (intro allI impI)
  fix tr out tr'
  assume run: "seq m f tr = (out, tr')"
  obtain o1 tr1 where m: "m tr = (o1, tr1)" by (cases "m tr")
  from assms(1) m have p1: "prefix (issued tr) (issued tr1)"
    and r1: "\<And>h kvs. prefix h (issued tr1) \<Longrightarrow> \<not> prefix h (issued tr) \<Longrightarrow> refused E h kvs \<Longrightarrow>
           h = issued tr1 \<and>
           (\<exists>cm. o1 = Inl (ExpectedSuccess cm (py_or (field kvs ''status'') (PStr ''unknown''))
                                               (py_or (field kvs ''result'') (PDict []))))"
    unfolding stops_at_refusal_def by blast+
  show "prefix (issued tr) (issued tr') \<and>
        (\<forall>h kvs. prefix h (issued tr') \<and> \<not> prefix h (issued tr) \<and> refused E h kvs \<longrightarrow>
           h = issued tr' \<and>
           (\<exists>cm. out = Inl (ExpectedSuccess cm (py_or (field kvs ''status'') (PStr ''unknown''))
                                               (py_or (field kvs ''result'') (PDict [])))))"
  proof (cases o1)
    case (Inl e)
    with run m have o: "out = Inl e" "tr' = tr1" by (simp_all add: seq_def)
    have "h = issued tr' \<and>
           (\<exists>cm. out = Inl (ExpectedSuccess cm (py_or (field kvs ''status'') (PStr ''unknown''))
                                               (py_or (field kvs ''result'') (PDict []))))"
      if h: "prefix h (issued tr')" "\<not> prefix h (issued tr)" "refused E h kvs" for h kvs
      using r1[of h kvs] h o Inl by auto
    with p1 o show ?thesis by blast
  next
    case (Inr a)
    with run m have fa: "f a tr1 = (out, tr')" by (simp add: seq_def)
    from assms(2)[of a] fa have p2: "prefix (issued tr1) (issued tr')"
      and r2: "\<And>h kvs. prefix h (issued tr') \<Longrightarrow> \<not> prefix h (issued tr1) \<Longrightarrow> refused E h kvs \<Longrightarrow>
           h = issued tr' \<and>
           (\<exists>cm. out = Inl (ExpectedSuccess cm (py_or (field kvs ''status'') (PStr ''unknown''))
                                               (py_or (field kvs ''result'') (PDict []))))"
      unfolding stops_at_refusal_def by blast+
    have "h = issued tr' \<and>
           (\<exists>cm. out = Inl (ExpectedSuccess cm (py_or (field kvs ''status'') (PStr ''unknown''))
                                               (py_or (field kvs ''result'') (PDict []))))"
      if h: "prefix h (issued tr')" "\<not> prefix h (issued tr)" "refused E h kvs" for h kvs
    proof (cases "prefix h (issued tr1)")
      case True
      from r1[OF True h(2) h(3)] Inr show ?thesis by simp
    next
      case False
      from r2[OF h(1) False h(3)] show ?thesis .
    qed
    with p1 p2 show ?thesis by (meson prefix_order.order_trans)
  qed
qed

lemma stops_quiet:
  "stops_at_refusal E (ret a)" "stops_at_refusal E (lift x)" "stops_at_refusal E split"
  "stops_at_refusal E (emit (Info m))" "stops_at_refusal E (emit (Error m))"
  by (auto simp: stops_at_refusal_def)

lemma stops_error_unless_eq: "stops_at_refusal E (error_unless_eq a b m)"
  by (simp add: error_unless_eq_def stops_quiet)

lemma unwrapped_refused:
  "refused E h kvs \<Longrightarrow>
   unwrapped E cm h = Inl (ExpectedSuccess cm (py_or (field kvs ''status'') (PStr ''unknown''))
                                               (py_or (field kvs ''result'') (PDict [])))"
  by (simp add: refused_def unwrapped_def json_loads_def success_dict py_or_def)

lemma prefix_snoc_new: "prefix h (xs @ [x]) \<Longrightarrow> \<not> prefix h xs \<Longrightarrow> h = xs @ [x]"
  by (auto simp: prefix_snoc)

lemma stops_run_success: "stops_at_refusal E (run_success E cm c)"
  unfolding stops_at_refusal_def
proof (intro allI impI)
  fix tr out tr'
  assume r: "run_success E cm c tr = (out, tr')"
  show "prefix (issued tr) (issued tr') \<and>
        (\<forall>h kvs. prefix h (issued tr') \<and> \<not> prefix h (issued tr) \<and> refused E h kvs \<longrightarrow>
           h = issued tr' \<and>
           (\<exists>cm. out = Inl (ExpectedSuccess cm (py_or (field kvs ''status'') (PStr ''unknown''))
                                               (py_or (field kvs ''result'') (PDict [])))))"
  proof (cases "command_line c cm")
    case None
    with r have "tr' = tr" by (simp add: run_success_total)
    then show ?thesis by blast
  next
    case (Some toks)
    with r have o: "out = unwrapped E cm (issued tr @ [toks])"
      and i: "issued tr' = issued tr @ [toks]"
      by (auto simp: run_success_total)
    have "h = issued tr' \<and>
           (\<exists>cm. out = Inl (ExpectedSuccess cm (py_or (field kvs ''status'') (PStr ''unknown''))
                                               (py_or (field kvs ''result'') (PDict []))))"
      if h: "prefix h (issued tr')" "\<not> prefix h (issued tr)" "refused E h kvs" for h kvs
    proof -
      from h(1,2) i have "h = issued tr @ [toks]" by (simp add: prefix_snoc_new)
      with h(3) o i show ?thesis by (simp add: unwrapped_refused)
    qed
    with i show ?thesis by auto
  qed
qed

lemma stops_steps:
  "stops_at_refusal E (create_client E c dst src)"
  "stops_at_refusal E (update_client E c dst src i)"
  "stops_at_refusal E (query_client_state E c dst i)"
  "stops_at_refusal E (conn_init E c a b x y)"
  "stops_at_refusal E (conn_try E c a b x y z)"
  "stops_at_refusal E (conn_ack E c a b x y z w)"
  "stops_at_refusal E (conn_confirm E c a b x y z w)"
  unfolding create_client_def update_client_def query_client_state_def
    conn_init_def conn_try_def conn_ack_def conn_confirm_def
  by (intro stops_seq stops_run_success stops_quiet)+

lemma stops_lifecycle: "stops_at_refusal E (create_update_query_client E c dst src)"
  unfolding create_update_query_client_def
  by (intro stops_seq stops_steps stops_quiet)

lemma stops_handshake: "stops_at_refusal E (connection_handshake E c a b x y)"
  unfolding connection_handshake_def
  by (intro stops_seq stops_steps stops_quiet stops_error_unless_eq)

lemma stops_run: "stops_at_refusal E (run E c)"
  unfolding run_def
  by (intro stops_seq stops_lifecycle stops_handshake stops_quiet)

lemma create_refused:
  fixes E c kvs
  defines "t \<equiv> launcher c @ [''tx'', ''raw'', ''create-client'', ''ibc-0'', ''ibc-1'']"
  assumes "refused E [t] kvs"
  shows "run E c [] =
     (Inl (ExpectedSuccess (TxCreateClient IBC_0 IBC_1)
             (py_or (field kvs ''status'') (PStr ''unknown''))
             (py_or (field kvs ''result'') (PDict []))),
      step_trace E [] t)"
  using assms(2) unfolding t_def
  by (simp add: run_def create_update_query_client_def seq_apply create_client_total
      command_line_def name_split IBC_0_def IBC_1_def unwrapped_refused)

lemmas sample_eval = sample_launcher yields_def unwrapped_def json_loads_def reply_line_def
  sample_env_def sample_agent_def sample_loads_def ok_def
  splitlines_def splitlines_from.simps(2) linebreak_def last_line_def
  success_dict field_def py_or_def klass_defs

subsection \<open>The rhythm of a run\<close>








section \<open>The claims\<close>




text \<open>
  Claim C2, as amended. For every command and every decoded reply that is a JSON object,
  \<open>success\<close> returns the command's \<open>process\<close> applied to the result field when the status
  field is \<^verbatim>\<open>"success"\<close>, and for any other status raises \<open>ExpectedSuccess\<close> with the
  command, the status and the result field; except that a status that is absent or falsy
  is replaced by \<^verbatim>\<open>"unknown"\<close>, and a result that is absent or falsy by the empty dict,
  before either is used. Where both fields are absent or truthy this is the unwrap of the
  specification. A decoded reply that is not a JSON object raises \<^verbatim>\<open>AttributeError\<close>.
  \<open>success\<close> reads the envelope and writes nothing: its outcome is a function of the
  envelope, the same at every call.
\<close>

theorem success_unwraps:
  "(field kvs ''status'' = PStr ''success'' \<longrightarrow>
      success (CmdResult c (PDict kvs)) = process c (py_or (field kvs ''result'') (PDict [])))
   \<and> (field kvs ''status'' \<noteq> PStr ''success'' \<longrightarrow>
      success (CmdResult c (PDict kvs)) =
        Inl (ExpectedSuccess c (py_or (field kvs ''status'') (PStr ''unknown''))
                               (py_or (field kvs ''result'') (PDict []))))
   \<and> ((case map_of kvs ''status'' of None \<Rightarrow> True | Some s \<Rightarrow> truthy s)
        \<and> (case map_of kvs ''result'' of None \<Rightarrow> True | Some r \<Rightarrow> truthy r) \<longrightarrow>
      success (CmdResult c (PDict kvs)) = unwrap_spec c kvs)
   \<and> success (CmdResult c PNone) = Inl AttributeError
   \<and> success (CmdResult c (PBool b)) = Inl AttributeError
   \<and> success (CmdResult c (PInt i)) = Inl AttributeError
   \<and> success (CmdResult c (PFloat q)) = Inl AttributeError
   \<and> success (CmdResult c (PStr s)) = Inl AttributeError
   \<and> success (CmdResult c (PList xs)) = Inl AttributeError
   \<and> success (CmdResult c (PInst n fs)) = Inl AttributeError"
proof -
  have 1: "success (CmdResult c (PDict kvs)) = process c (py_or (field kvs ''result'') (PDict []))"
    if "field kvs ''status'' = PStr ''success''"
    using that by (simp add: success_dict py_or_def)
  have 2: "success (CmdResult c (PDict kvs)) =
        Inl (ExpectedSuccess c (py_or (field kvs ''status'') (PStr ''unknown''))
                               (py_or (field kvs ''result'') (PDict [])))"
    if "field kvs ''status'' \<noteq> PStr ''success''"
    using that by (simp add: success_dict py_or_def)
  have 3: "success (CmdResult c (PDict kvs)) = unwrap_spec c kvs"
    if "case map_of kvs ''status'' of None \<Rightarrow> True | Some s \<Rightarrow> truthy s"
      and "case map_of kvs ''result'' of None \<Rightarrow> True | Some r \<Rightarrow> truthy r"
    using that by (auto simp: success_dict unwrap_spec_def field_def py_or_def split: option.splits)
  have 4: "success (CmdResult c PNone) = Inl AttributeError"
    "success (CmdResult c (PBool b)) = Inl AttributeError"
    "success (CmdResult c (PInt i)) = Inl AttributeError"
    "success (CmdResult c (PFloat q)) = Inl AttributeError"
    "success (CmdResult c (PStr s)) = Inl AttributeError"
    "success (CmdResult c (PList xs)) = Inl AttributeError"
    "success (CmdResult c (PInst n fs)) = Inl AttributeError"
    by (simp_all add: success_def)
  from 1 2 3 4 show ?thesis by blast
qed

text \<open>
  The reply \<^verbatim>\<open>{"status": "error", "result": {"msg": "boom"}}\<close> raises with exactly that
  status and payload, as the specification has it; a reply with the status
  \<^verbatim>\<open>"success"\<close> goes to \<open>process\<close>.
\<close>

theorem success_unwraps_witness:
  "field [(''status'', PStr ''error''), (''result'', PDict [(''msg'', PStr ''boom'')])] ''status''
     \<noteq> PStr ''success''
   \<and> success (CmdResult (TxCreateClient IBC_0 IBC_1) boom)
     = Inl (ExpectedSuccess (TxCreateClient IBC_0 IBC_1) (PStr ''error'')
             (PDict [(''msg'', PStr ''boom'')]))
   \<and> success (CmdResult (TxCreateClient IBC_0 IBC_1) boom)
     = unwrap_spec (TxCreateClient IBC_0 IBC_1)
         [(''status'', PStr ''error''), (''result'', PDict [(''msg'', PStr ''boom'')])]
   \<and> field [(''status'', PStr ''success''), (''result'', PList [PDict [(''CreateClient'',
          PDict [(''client_id'', PStr ''07-tendermint-0'')])]])] ''status'' = PStr ''success''
   \<and> success (CmdResult (TxCreateClient IBC_0 IBC_1)
        (ok (PList [PDict [(''CreateClient'', PDict [(''client_id'', PStr ''07-tendermint-0'')])]])))
     = Inr (PInst ''TxCreateClientRes'' [(''client_id'', PStr ''07-tendermint-0'')])"
  using
    success_unwraps[where kvs = "[(''status'', PStr ''error''), (''result'', PDict [(''msg'', PStr ''boom'')])]"
      and c = "TxCreateClient IBC_0 IBC_1" and b = True and i = 0 and q = 0 and s = "[]"
      and xs = "[]" and n = "[]" and fs = "[]"]
    success_unwraps[where kvs = "[(''status'', PStr ''success''), (''result'', PList [PDict [(''CreateClient'',
          PDict [(''client_id'', PStr ''07-tendermint-0'')])]])]"
      and c = "TxCreateClient IBC_0 IBC_1" and b = True and i = 0 and q = 0 and s = "[]"
      and xs = "[]" and n = "[]" and fs = "[]"]
  by (simp add: boom_def ok_def field_def py_or_def klass_defs unwrap_spec_def)

text \<open>
  Claim C2 as stated fails where a field is present and falsy. With the status \<^verbatim>\<open>""\<close>
  and the result \<^verbatim>\<open>[]\<close>, the exception carries \<^verbatim>\<open>"unknown"\<close> and \<^verbatim>\<open>{}\<close>, not the status and
  the payload of the reply. With the status \<^verbatim>\<open>"success"\<close> and the result \<^verbatim>\<open>[]\<close>,
  \<open>process\<close> is applied to \<^verbatim>\<open>{}\<close> and raises \<^verbatim>\<open>KeyError\<close>; applied to the result field it
  would raise \<^verbatim>\<open>IndexError\<close>.
\<close>

theorem success_unwraps_counterexample:
  "success (CmdResult (TxCreateClient IBC_0 IBC_1)
      (PDict [(''status'', PStr []), (''result'', PList [])]))
     = Inl (ExpectedSuccess (TxCreateClient IBC_0 IBC_1) (PStr ''unknown'') (PDict []))
   \<and> unwrap_spec (TxCreateClient IBC_0 IBC_1) [(''status'', PStr []), (''result'', PList [])]
     = Inl (ExpectedSuccess (TxCreateClient IBC_0 IBC_1) (PStr []) (PList []))
   \<and> success (CmdResult (TxCreateClient IBC_0 IBC_1)
      (PDict [(''status'', PStr ''success''), (''result'', PList [])])) = Inl KeyError
   \<and> unwrap_spec (TxCreateClient IBC_0 IBC_1) [(''status'', PStr ''success''), (''result'', PList [])]
     = Inl IndexError"
  by (simp add: success_dict unwrap_spec_def field_def py_or_def)




text \<open>
  Claim C6. For any two chain identities \<open>dst\<close> and \<open>src\<close>, a client lifecycle that returns
  has issued exactly 4 commands, in the order CREATE, QUERY, UPDATE, QUERY, and returns the
  client id of the result of the CREATE step. The command lines are made of the two chain
  identities and that client id only: no step takes a height from an earlier step.
\<close>

theorem lifecycle_issues_four_commands:
  assumes "create_update_query_client E c dst src tr = (Inr cid, tr')"
  shows "\<exists>d s i client tr1.
           dst = PStr d \<and> src = PStr s \<and> cid = PStr i
         \<and> create_client E c dst src tr = (Inr client, tr1)
         \<and> getattr client ''client_id'' = Inr cid
         \<and> issued tr' = issued tr @
             [launcher c @ [''tx'', ''raw'', ''create-client'', d, s],
              launcher c @ [''query'', ''client'', ''state'', d, i],
              launcher c @ [''tx'', ''raw'', ''update-client'', d, s, i],
              launcher c @ [''query'', ''client'', ''state'', d, i]]"
  using assms by (rule lifecycle_returns)

text \<open>The lifecycle for (dst = ibc-0, src = ibc-1) with the sample relayer.\<close>

theorem lifecycle_issues_four_commands_witness:
  "fst (create_update_query_client sample_env ''cfg.toml'' IBC_0 IBC_1 [])
     = Inr (PStr ''07-tendermint-0'')
   \<and> map join_space (issued (snd (create_update_query_client sample_env ''cfg.toml'' IBC_0 IBC_1 [])))
     = [''cargo run --bin relayer -- -c cfg.toml tx raw create-client ibc-0 ibc-1'',
        ''cargo run --bin relayer -- -c cfg.toml query client state ibc-0 07-tendermint-0'',
        ''cargo run --bin relayer -- -c cfg.toml tx raw update-client ibc-0 ibc-1 07-tendermint-0'',
        ''cargo run --bin relayer -- -c cfg.toml query client state ibc-0 07-tendermint-0'']"
proof -
  from sample_lifecycle obtain tr where
    r: "create_update_query_client sample_env ''cfg.toml'' IBC_0 IBC_1 []
          = (Inr (PStr ''07-tendermint-0''), tr)" ..
  from lifecycle_issues_four_commands[OF r] r show ?thesis
    by (auto simp: IBC_0_def IBC_1_def sample_launcher)
qed

text \<open>
  Claim C7. The arguments of a \<open>QueryClientState\<close> are \<^verbatim>\<open>--height\<close> and the decimal height
  when the height is not \<^verbatim>\<open>None\<close>, then \<^verbatim>\<open>--proof\<close> when \<open>proof\<close> is true, then the chain id
  and the client id. With no height and no proof they are the chain id and the client id
  alone; an absent field contributes no token, and the height token is never empty.
\<close>

theorem QueryClientState_args:
  "args (QueryClientState chain_id client_id None False) = [chain_id, client_id]
   \<and> args (QueryClientState chain_id client_id None True)
       = [PStr ''--proof'', chain_id, client_id]
   \<and> args (QueryClientState chain_id client_id (Some h) False)
       = [PStr ''--height'', PStr (str_int h), chain_id, client_id]
   \<and> args (QueryClientState chain_id client_id (Some h) True)
       = [PStr ''--height'', PStr (str_int h), PStr ''--proof'', chain_id, client_id]
   \<and> str_int h \<noteq> []"
  by (simp add: str_int_nonempty)

text \<open>
  Claim C9. \<open>success\<close> replaces every falsy status, not only an absent one, by
  \<^verbatim>\<open>"unknown"\<close>: the \<open>ExpectedSuccess\<close> it then raises carries \<^verbatim>\<open>"unknown"\<close>. And it replaces
  every falsy result by the empty dict: when the status is not \<^verbatim>\<open>"success"\<close>, the payload
  carried is \<^verbatim>\<open>{}\<close>. Absent, \<^verbatim>\<open>None\<close>, the empty string and the empty list are falsy.
\<close>

theorem success_normalizes_falsy:
  "(\<not> truthy (field kvs ''status'') \<longrightarrow>
      success (CmdResult c (PDict kvs)) =
        Inl (ExpectedSuccess c (PStr ''unknown'') (py_or (field kvs ''result'') (PDict []))))
   \<and> (field kvs ''status'' \<noteq> PStr ''success'' \<and> \<not> truthy (field kvs ''result'') \<longrightarrow>
      success (CmdResult c (PDict kvs)) =
        Inl (ExpectedSuccess c (py_or (field kvs ''status'') (PStr ''unknown'')) (PDict [])))
   \<and> (map_of kvs k \<in> {None, Some PNone, Some (PStr []), Some (PList [])} \<longrightarrow>
      \<not> truthy (field kvs k))"
  by (auto simp: success_dict py_or_def field_def)

text \<open>
  The status \<^verbatim>\<open>""\<close> with the result \<^verbatim>\<open>[]\<close>; the status \<^verbatim>\<open>null\<close> with no result; the status
  \<^verbatim>\<open>"error"\<close> with the result \<^verbatim>\<open>""\<close>.
\<close>

theorem success_normalizes_falsy_witness:
  "\<not> truthy (field [(''status'', PStr []), (''result'', PList [])] ''status'')
   \<and> \<not> truthy (field [(''status'', PStr []), (''result'', PList [])] ''result'')
   \<and> success (CmdResult (TxCreateClient IBC_0 IBC_1)
        (PDict [(''status'', PStr []), (''result'', PList [])]))
     = Inl (ExpectedSuccess (TxCreateClient IBC_0 IBC_1) (PStr ''unknown'') (PDict []))
   \<and> success (CmdResult (TxCreateClient IBC_0 IBC_1) (PDict [(''status'', PNone)]))
     = Inl (ExpectedSuccess (TxCreateClient IBC_0 IBC_1) (PStr ''unknown'') (PDict []))
   \<and> success (CmdResult (TxCreateClient IBC_0 IBC_1)
        (PDict [(''status'', PStr ''error''), (''result'', PStr [])]))
     = Inl (ExpectedSuccess (TxCreateClient IBC_0 IBC_1) (PStr ''error'') (PDict []))"
  using
    success_normalizes_falsy[of "[(''status'', PStr []), (''result'', PList [])]"
      "TxCreateClient IBC_0 IBC_1" "''status''"]
    success_normalizes_falsy[of "[(''status'', PNone)]" "TxCreateClient IBC_0 IBC_1" "''status''"]
    success_normalizes_falsy[of "[(''status'', PStr ''error''), (''result'', PStr [])]"
      "TxCreateClient IBC_0 IBC_1" "''result''"]
  by (simp add: field_def py_or_def)

text \<open>
  Claim C3. In the connection handshake between the chains \<open>A\<close> and \<open>B\<close>, once INIT has
  produced the connection id \<open>a\<close>, TRY the id \<open>b\<close> and ACK has returned \<open>k\<close>: the four
  commands INIT, TRY, ACK, CONFIRM are issued whatever \<open>k\<close> is; when \<open>k\<close> differs from \<open>a\<close>
  an error record is logged, and the delay and the CONFIRM command follow it; when
  CONFIRM returns \<open>k'\<close> the handshake returns, and an error record is the last effect when
  \<open>k'\<close> differs from \<open>b\<close>; and whenever the handshake returns, it returns \<open>(a, b)\<close>.
\<close>

theorem handshake_mismatch_not_fatal:
  fixes E :: env and c :: string and tr tr' :: "effect list" and k k' :: pyval
    and A B ca cb a b :: string
  defines "init_cmd \<equiv> launcher c @ [''tx'', ''raw'', ''conn-init'', B, A, cb, ca,
                                  ''default-conn'', ''default-conn'']"
      and "try_cmd \<equiv> launcher c @ [''tx'', ''raw'', ''conn-try'', A, B, ca, cb, ''default-conn'', a]"
      and "ack_cmd \<equiv> launcher c @ [''tx'', ''raw'', ''conn-ack'', B, A, cb, ca, a, b]"
      and "confirm_cmd \<equiv> launcher c @ [''tx'', ''raw'', ''conn-confirm'', A, B, ca, cb, b, a]"
  assumes "connection_handshake E c (PStr A) (PStr B) (PStr ca) (PStr cb) tr = (out, tr')"
      and "yields E (TxConnInit (PStr A) (PStr B) (PStr ca) (PStr cb))
             (issued tr @ [init_cmd]) ''connection_id'' = Inr (PStr a)"
      and "yields E (TxConnTry (PStr B) (PStr A) (PStr cb) (PStr ca) (PStr a))
             (issued tr @ [init_cmd, try_cmd]) ''connection_id'' = Inr (PStr b)"
      and "yields E (TxConnAck (PStr A) (PStr B) (PStr ca) (PStr cb) (PStr b) (PStr a))
             (issued tr @ [init_cmd, try_cmd, ack_cmd]) ''connection_id'' = Inr k"
  shows "issued tr' = issued tr @ [init_cmd, try_cmd, ack_cmd, confirm_cmd]
       \<and> (\<not> py_eq k (PStr a) \<longrightarrow>
            (\<exists>pre post. tr' = pre @ [Error (Incorrect_conn_ack (PStr a) k), Delay,
                                      Debug (join_space confirm_cmd), Spawn confirm_cmd] @ post))
       \<and> (\<forall>p. out = Inr p \<longrightarrow> p = (PStr a, PStr b))
       \<and> (yields E (TxConnConfirm (PStr B) (PStr A) (PStr cb) (PStr ca) (PStr a) (PStr b))
             (issued tr @ [init_cmd, try_cmd, ack_cmd, confirm_cmd]) ''connection_id'' = Inr k' \<longrightarrow>
            out = Inr (PStr a, PStr b)
            \<and> (\<not> py_eq k' (PStr b) \<longrightarrow> last tr' = Error (Incorrect_conn_confirm (PStr b) k')))"
proof -
  let ?y = "yields E (TxConnConfirm (PStr B) (PStr A) (PStr cb) (PStr ca) (PStr a) (PStr b))
             (issued tr @ [init_cmd, try_cmd, ack_cmd, confirm_cmd]) ''connection_id''"
  let ?before = "tr @ step_trace E (issued tr) init_cmd @ [Info (ConnOpen_init (PStr B) (PStr a)), Delay]
         @ step_trace E (issued tr @ [init_cmd]) try_cmd @ [Info (ConnOpen_try (PStr A) (PStr b)), Delay]
         @ step_trace E (issued tr @ [init_cmd, try_cmd]) ack_cmd @ [Info (ConnOpen_ack (PStr B) k)]"
  let ?check = "if py_eq k (PStr a) then [] else [Error (Incorrect_conn_ack (PStr a) k)]"
  let ?conf = "step_trace E (issued tr @ [init_cmd, try_cmd, ack_cmd]) confirm_cmd"
  note H = handshake_after_ack[of E A B ca cb tr c a b k,
      folded init_cmd_def try_cmd_def ack_cmd_def confirm_cmd_def, OF assms(6-8)]
  have ib: "issued (?before @ ?check @ [Delay] @ ?conf) = issued tr @ [init_cmd, try_cmd, ack_cmd, confirm_cmd]"
    by simp
  show ?thesis
  proof (cases ?y)
    case (Inl e)
    with H assms(5) have o: "out = Inl e" and t: "tr' = ?before @ ?check @ [Delay] @ ?conf"
      by simp_all
    have 2: "\<exists>pre post. tr' = pre @ [Error (Incorrect_conn_ack (PStr a) k), Delay,
                                      Debug (join_space confirm_cmd), Spawn confirm_cmd] @ post"
      if "\<not> py_eq k (PStr a)"
    proof -
      from that t have "tr' = ?before @ [Error (Incorrect_conn_ack (PStr a) k), Delay,
          Debug (join_space confirm_cmd), Spawn confirm_cmd]
          @ [Debug (reply_line E (issued tr @ [init_cmd, try_cmd, ack_cmd, confirm_cmd]))]"
        by (simp add: step_trace_def)
      then show ?thesis by blast
    qed
    from o t ib 2 Inl show ?thesis by simp
  next
    case (Inr x)
    let ?tail = "[Info (ConnOpen_confirm (PStr A) x)]
             @ (if py_eq x (PStr b) then [] else [Error (Incorrect_conn_confirm (PStr b) x)])"
    from Inr H assms(5) have o: "out = Inr (PStr a, PStr b)"
      and t: "tr' = ?before @ ?check @ [Delay] @ ?conf @ ?tail"
      by simp_all
    have 1: "issued tr' = issued tr @ [init_cmd, try_cmd, ack_cmd, confirm_cmd]"
      unfolding t by simp
    have 2: "\<exists>pre post. tr' = pre @ [Error (Incorrect_conn_ack (PStr a) k), Delay,
                                      Debug (join_space confirm_cmd), Spawn confirm_cmd] @ post"
      if "\<not> py_eq k (PStr a)"
    proof -
      from that t have "tr' = ?before @ [Error (Incorrect_conn_ack (PStr a) k), Delay,
          Debug (join_space confirm_cmd), Spawn confirm_cmd]
          @ ([Debug (reply_line E (issued tr @ [init_cmd, try_cmd, ack_cmd, confirm_cmd]))] @ ?tail)"
        by (simp add: step_trace_def)
      then show ?thesis by blast
    qed
    have 4: "last tr' = Error (Incorrect_conn_confirm (PStr b) x)" if "\<not> py_eq x (PStr b)"
      unfolding t using that by simp
    from o 1 2 4 Inr show ?thesis by simp
  qed
qed

text \<open>
  The sample relayer: INIT produces \<^verbatim>\<open>connection-0\<close>, TRY \<^verbatim>\<open>connection-1\<close>, and ACK returns
  \<^verbatim>\<open>connection-9\<close>.
\<close>

theorem handshake_mismatch_not_fatal_witness:
  "yields sample_env
      (TxConnAck IBC_1 IBC_0 (PStr ''07-tendermint-0'') (PStr ''07-tendermint-0'')
         (PStr ''connection-1'') (PStr ''connection-0''))
      [launcher ''cfg.toml'' @ [''tx'', ''raw'', ''conn-init'', ''ibc-0'', ''ibc-1'',
          ''07-tendermint-0'', ''07-tendermint-0'', ''default-conn'', ''default-conn''],
       launcher ''cfg.toml'' @ [''tx'', ''raw'', ''conn-try'', ''ibc-1'', ''ibc-0'',
          ''07-tendermint-0'', ''07-tendermint-0'', ''default-conn'', ''connection-0''],
       launcher ''cfg.toml'' @ [''tx'', ''raw'', ''conn-ack'', ''ibc-0'', ''ibc-1'',
          ''07-tendermint-0'', ''07-tendermint-0'', ''connection-0'', ''connection-1'']]
      ''connection_id'' = Inr (PStr ''connection-9'')
   \<and> \<not> py_eq (PStr ''connection-9'') (PStr ''connection-0'')
   \<and> fst (connection_handshake sample_env ''cfg.toml'' IBC_1 IBC_0
            (PStr ''07-tendermint-0'') (PStr ''07-tendermint-0'') [])
       = Inr (PStr ''connection-0'', PStr ''connection-1'')
   \<and> Error (Incorrect_conn_ack (PStr ''connection-0'') (PStr ''connection-9''))
       \<in> set (snd (connection_handshake sample_env ''cfg.toml'' IBC_1 IBC_0
            (PStr ''07-tendermint-0'') (PStr ''07-tendermint-0'') []))
   \<and> map join_space (issued (snd (connection_handshake sample_env ''cfg.toml'' IBC_1 IBC_0
            (PStr ''07-tendermint-0'') (PStr ''07-tendermint-0'') [])))
       = [''cargo run --bin relayer -- -c cfg.toml tx raw conn-init ibc-0 ibc-1 07-tendermint-0 07-tendermint-0 default-conn default-conn'',
          ''cargo run --bin relayer -- -c cfg.toml tx raw conn-try ibc-1 ibc-0 07-tendermint-0 07-tendermint-0 default-conn connection-0'',
          ''cargo run --bin relayer -- -c cfg.toml tx raw conn-ack ibc-0 ibc-1 07-tendermint-0 07-tendermint-0 connection-0 connection-1'',
          ''cargo run --bin relayer -- -c cfg.toml tx raw conn-confirm ibc-1 ibc-0 07-tendermint-0 07-tendermint-0 connection-1 connection-0'']"
proof -
  let ?init_cmd = "launcher ''cfg.toml'' @ [''tx'', ''raw'', ''conn-init'', ''ibc-0'', ''ibc-1'',
          ''07-tendermint-0'', ''07-tendermint-0'', ''default-conn'', ''default-conn'']"
  let ?try_cmd = "launcher ''cfg.toml'' @ [''tx'', ''raw'', ''conn-try'', ''ibc-1'', ''ibc-0'',
          ''07-tendermint-0'', ''07-tendermint-0'', ''default-conn'', ''connection-0'']"
  let ?ack_cmd = "launcher ''cfg.toml'' @ [''tx'', ''raw'', ''conn-ack'', ''ibc-0'', ''ibc-1'',
          ''07-tendermint-0'', ''07-tendermint-0'', ''connection-0'', ''connection-1'']"
  let ?confirm_cmd = "launcher ''cfg.toml'' @ [''tx'', ''raw'', ''conn-confirm'', ''ibc-1'', ''ibc-0'',
          ''07-tendermint-0'', ''07-tendermint-0'', ''connection-1'', ''connection-0'']"
  let ?tm = "PStr ''07-tendermint-0''"
  let ?run = "connection_handshake sample_env ''cfg.toml'' (PStr ''ibc-1'') (PStr ''ibc-0'') ?tm ?tm []"
  have h0: "?run = (fst ?run, snd ?run)" by simp
  have h1: "yields sample_env (TxConnInit (PStr ''ibc-1'') (PStr ''ibc-0'') ?tm ?tm)
      (issued [] @ [?init_cmd]) ''connection_id'' = Inr (PStr ''connection-0'')"
    by (simp add: sample_eval)
  have h2: "yields sample_env (TxConnTry (PStr ''ibc-0'') (PStr ''ibc-1'') ?tm ?tm (PStr ''connection-0''))
      (issued [] @ [?init_cmd, ?try_cmd]) ''connection_id'' = Inr (PStr ''connection-1'')"
    by (simp add: sample_eval)
  have h3: "yields sample_env (TxConnAck (PStr ''ibc-1'') (PStr ''ibc-0'') ?tm ?tm
        (PStr ''connection-1'') (PStr ''connection-0''))
      (issued [] @ [?init_cmd, ?try_cmd, ?ack_cmd]) ''connection_id'' = Inr (PStr ''connection-9'')"
    by (simp add: sample_eval)
  have h4: "yields sample_env (TxConnConfirm (PStr ''ibc-0'') (PStr ''ibc-1'') ?tm ?tm
        (PStr ''connection-0'') (PStr ''connection-1''))
      (issued [] @ [?init_cmd, ?try_cmd, ?ack_cmd, ?confirm_cmd]) ''connection_id'' = Inr (PStr ''connection-1'')"
    by (simp add: sample_eval)
  note T = handshake_mismatch_not_fatal[OF h0 h1 h2 h3, where k' = "PStr ''connection-1''"]
  from T have i: "issued (snd ?run) = [?init_cmd, ?try_cmd, ?ack_cmd, ?confirm_cmd]" by simp
  from T h4 have o: "fst ?run = Inr (PStr ''connection-0'', PStr ''connection-1'')" by blast
  have ne: "\<not> py_eq (PStr ''connection-9'') (PStr ''connection-0'')" by simp
  with T obtain pre post where
    "snd ?run = pre @ [Error (Incorrect_conn_ack (PStr ''connection-0'') (PStr ''connection-9'')),
        Delay, Debug (join_space ?confirm_cmd), Spawn ?confirm_cmd] @ post"
    by blast
  then have m: "Error (Incorrect_conn_ack (PStr ''connection-0'') (PStr ''connection-9''))
       \<in> set (snd ?run)" by simp
  have j: "map join_space [?init_cmd, ?try_cmd, ?ack_cmd, ?confirm_cmd] =
         [''cargo run --bin relayer -- -c cfg.toml tx raw conn-init ibc-0 ibc-1 07-tendermint-0 07-tendermint-0 default-conn default-conn'',
          ''cargo run --bin relayer -- -c cfg.toml tx raw conn-try ibc-1 ibc-0 07-tendermint-0 07-tendermint-0 default-conn connection-0'',
          ''cargo run --bin relayer -- -c cfg.toml tx raw conn-ack ibc-0 ibc-1 07-tendermint-0 07-tendermint-0 connection-0 connection-1'',
          ''cargo run --bin relayer -- -c cfg.toml tx raw conn-confirm ibc-1 ibc-0 07-tendermint-0 07-tendermint-0 connection-1 connection-0'']"
    by (simp add: sample_launcher)
  from h3 ne o m i j show ?thesis by (simp add: IBC_0_def IBC_1_def)
qed

text \<open>
  Claim C4. If the reply to the first CREATE command decodes to a JSON object whose status
  is not \<^verbatim>\<open>"success"\<close>, the run raises \<open>ExpectedSuccess\<close> with the CREATE command, that
  status and that payload, and the CREATE command is the only one issued. More generally,
  nothing catches \<open>ExpectedSuccess\<close>: whichever command of a run is refused, it is the last
  command of the run, and the run raises the \<open>ExpectedSuccess\<close> of its reply.
\<close>

theorem first_refusal_ends_run:
  fixes E c kvs
  defines "create \<equiv> launcher c @ [''tx'', ''raw'', ''create-client'', ''ibc-0'', ''ibc-1'']"
  shows
   "(refused E [create] kvs \<longrightarrow>
       run E c [] =
         (Inl (ExpectedSuccess (TxCreateClient IBC_0 IBC_1)
                 (py_or (field kvs ''status'') (PStr ''unknown''))
                 (py_or (field kvs ''result'') (PDict []))),
          [Debug (join_space create), Spawn create, Debug (reply_line E [create])]))
    \<and> (run E c [] = (out, tr) \<and> prefix h (issued tr) \<and> h \<noteq> [] \<and> refused E h kvs \<longrightarrow>
         h = issued tr \<and>
         (\<exists>cm. out = Inl (ExpectedSuccess cm (py_or (field kvs ''status'') (PStr ''unknown''))
                                             (py_or (field kvs ''result'') (PDict [])))))"
proof -
  have 1: "run E c [] =
         (Inl (ExpectedSuccess (TxCreateClient IBC_0 IBC_1)
                 (py_or (field kvs ''status'') (PStr ''unknown''))
                 (py_or (field kvs ''result'') (PDict []))),
          [Debug (join_space create), Spawn create, Debug (reply_line E [create])])"
    if "refused E [create] kvs"
    using create_refused[of E c kvs] that by (simp add: create_def step_trace_def)
  have 2: "h = issued tr \<and>
         (\<exists>cm. out = Inl (ExpectedSuccess cm (py_or (field kvs ''status'') (PStr ''unknown''))
                                             (py_or (field kvs ''result'') (PDict []))))"
    if "run E c [] = (out, tr)" "prefix h (issued tr)" "h \<noteq> []" "refused E h kvs"
  proof -
    from that(3) have "\<not> prefix h (issued [])" by simp
    with stops_run[of E c] that show ?thesis
      unfolding stops_at_refusal_def by blast
  qed
  from 1 2 show ?thesis by blast
qed

text \<open>
  The relayer that answers \<^verbatim>\<open>{"status": "error", "result": {"msg": "boom"}}\<close>: the run
  raises after the first CREATE.
\<close>

theorem first_refusal_ends_run_witness:
  "refused boom_env
     [launcher ''cfg.toml'' @ [''tx'', ''raw'', ''create-client'', ''ibc-0'', ''ibc-1'']]
     [(''status'', PStr ''error''), (''result'', PDict [(''msg'', PStr ''boom'')])]
   \<and> fst (run boom_env ''cfg.toml'' [])
       = Inl (ExpectedSuccess (TxCreateClient IBC_0 IBC_1) (PStr ''error'')
               (PDict [(''msg'', PStr ''boom'')]))
   \<and> issued (snd (run boom_env ''cfg.toml'' []))
       = [launcher ''cfg.toml'' @ [''tx'', ''raw'', ''create-client'', ''ibc-0'', ''ibc-1'']]"
proof -
  let ?create = "launcher ''cfg.toml'' @ [''tx'', ''raw'', ''create-client'', ''ibc-0'', ''ibc-1'']"
  let ?kvs = "[(''status'', PStr ''error''), (''result'', PDict [(''msg'', PStr ''boom'')])]"
  let ?run = "run boom_env ''cfg.toml'' []"
  have r: "refused boom_env [?create] ?kvs"
    by (simp add: refused_def boom_env_def boom_def field_def)
  note T = first_refusal_ends_run[where E = boom_env and c = "''cfg.toml''" and kvs = ?kvs
      and h = "[?create]" and out = "fst ?run" and tr = "snd ?run"]
  note e = T[THEN conjunct1, rule_format, OF r]
  from e have p: "prefix [?create] (issued (snd ?run))"
    by (simp only: snd_conv issued.simps prefix_order.order_refl)
  have s: "?run = (fst ?run, snd ?run)" by simp
  have n: "[?create] \<noteq> []" by simp
  note i = T[THEN conjunct2, rule_format, OF conjI[OF s conjI[OF p conjI[OF n r]]], THEN conjunct1]
  have st: "py_or (field ?kvs ''status'') (PStr ''unknown'') = PStr ''error''"
    and pl: "py_or (field ?kvs ''result'') (PDict []) = PDict [(''msg'', PStr ''boom'')]"
    by (simp_all add: field_def py_or_def)
  from e have o: "fst ?run = Inl (ExpectedSuccess (TxCreateClient IBC_0 IBC_1) (PStr ''error'')
               (PDict [(''msg'', PStr ''boom'')]))"
    unfolding st pl by (simp only: fst_conv)
  from r o i[symmetric] show ?thesis by (intro conjI)
qed






end
